theory Spec2Isabelle
  imports Main "HOL-Library.Word" "HOL-Library.AList" "HOL-Library.Code_Target_Numeral"
begin

unbundle bit_operations_syntax

chapter \<open>The blot tree of the editor: registry, attributors, ordered container, blots\<close>

text \<open>
  A shallow embedding of the document model of the editor (\<open>parchment.js\<close>) and of the
  image grid embed built on it. Each definition is the translation of one function of the
  sources, quoted above it where it is short. A thrown error is a value \<open>Inl err\<close>; a
  method that changes a blot in place returns the blot, or the blots standing in its
  place, afterwards. What the host environment supplies (the mutation observer, JSON, the
  link sanitizer, the style engine, random identifiers) is a parameter of the function
  that uses it.

  A JavaScript string is a sequence of 16-bit code units. The strings of the model are
  the strings made of the code units 0 to 255, one \<open>char\<close> for each code unit, so that
  the length of a string and its slices are those of the code. The host document is an
  HTML document and its elements are HTML elements.
\<close>

section \<open>Scope bit mask\<close>

text \<open>
  The \<open>Scope\<close> enumeration of \<open>parchment.js\<close>. JavaScript applies \<open>&\<close> and \<open>|\<close> to the
  32-bit integer value of its operands, so a scope is a 32-bit word.
\<close>

type_synonym scope = "32 word"

definition Scope_TYPE :: scope where "Scope_TYPE = 3"
definition Scope_LEVEL :: scope where "Scope_LEVEL = 12"
definition Scope_ATTRIBUTE :: scope where "Scope_ATTRIBUTE = 13"
definition Scope_BLOT :: scope where "Scope_BLOT = 14"
definition Scope_INLINE :: scope where "Scope_INLINE = 7"
definition Scope_BLOCK :: scope where "Scope_BLOCK = 11"
definition Scope_BLOCK_BLOT :: scope where "Scope_BLOCK_BLOT = 10"
definition Scope_INLINE_BLOT :: scope where "Scope_INLINE_BLOT = 6"
definition Scope_BLOCK_ATTRIBUTE :: scope where "Scope_BLOCK_ATTRIBUTE = 9"
definition Scope_INLINE_ATTRIBUTE :: scope where "Scope_INLINE_ATTRIBUTE = 5"
definition Scope_ANY :: scope where "Scope_ANY = 15"

lemmas Scope_defs =
  Scope_TYPE_def Scope_LEVEL_def Scope_ATTRIBUTE_def Scope_BLOT_def Scope_INLINE_def
  Scope_BLOCK_def Scope_BLOCK_BLOT_def Scope_INLINE_BLOT_def Scope_BLOCK_ATTRIBUTE_def
  Scope_INLINE_ATTRIBUTE_def Scope_ANY_def

section \<open>The ordered container (class \<open>LinkedList\<close>)\<close>

text \<open>
  The container is an intrusive doubly linked list; \<open>iterator()\<close> starts at \<open>head\<close> and
  follows \<open>next\<close>. The sequence it yields is modelled as a HOL list, so \<open>i.next\<close> is the
  head of the rest of the list and \<open>i.next == null\<close> is an empty rest. An entry is
  reported by its position in the sequence. Offsets and lengths are JavaScript numbers
  holding integers: \<open>int\<close>.

  \<^verbatim>\<open>find(t,e=!1){const s=this.iterator();let i=s();for(;i;){const r=i.length();
    if(t<r||e&&t===r&&(null==i.next||0!==i.next.length()))return[i,t];t-=r,i=s()}
    return[null,0]}\<close>
\<close>

fun find_loop :: "('a \<Rightarrow> int) \<Rightarrow> 'a list \<Rightarrow> nat \<Rightarrow> int \<Rightarrow> bool \<Rightarrow> nat option \<times> int" where
  "find_loop len [] k t e = (None, 0)"
| "find_loop len (i # rest) k t e =
     (let r = len i in
      if t < r \<or> (e \<and> t = r \<and> (case rest of [] \<Rightarrow> True | nx # _ \<Rightarrow> 0 \<noteq> len nx))
      then (Some k, t)
      else find_loop len rest (Suc k) (t - r) e)"

definition LinkedList_find :: "('a \<Rightarrow> int) \<Rightarrow> 'a list \<Rightarrow> int \<Rightarrow> bool \<Rightarrow> nat option \<times> int" where
  "LinkedList_find len xs t e = find_loop len xs 0 t e"

text \<open>The remainder when the walk reaches position \<open>j\<close>: the offset less the lengths before it.\<close>

definition remainder_at :: "('a \<Rightarrow> int) \<Rightarrow> 'a list \<Rightarrow> int \<Rightarrow> nat \<Rightarrow> int" where
  "remainder_at len xs t j = t - sum_list (map len (take j xs))"

text \<open>The test of the loop body at position \<open>j\<close>, as the source writes it.\<close>

definition stops_at :: "('a \<Rightarrow> int) \<Rightarrow> 'a list \<Rightarrow> int \<Rightarrow> bool \<Rightarrow> nat \<Rightarrow> bool" where
  "stops_at len xs t e j =
     (remainder_at len xs t j < len (xs ! j) \<or>
      (e \<and> remainder_at len xs t j = len (xs ! j) \<and>
       (Suc j = length xs \<or> 0 \<noteq> len (xs ! Suc j))))"

text \<open>
  The tie-break as the specification words it: at a boundary (remainder equal to the
  entry's length, \<open>preferEnd\<close> set) the search "continues to the next entry unless that
  next entry has zero length". Only this second definition follows the specification;
  it is compared with \<open>find_loop\<close> below.
\<close>

fun find_loop_as_specified ::
  "('a \<Rightarrow> int) \<Rightarrow> 'a list \<Rightarrow> nat \<Rightarrow> int \<Rightarrow> bool \<Rightarrow> nat option \<times> int" where
  "find_loop_as_specified len [] k t e = (None, 0)"
| "find_loop_as_specified len (i # rest) k t e =
     (let r = len i in
      if t < r \<or> (e \<and> t = r \<and> (case rest of [] \<Rightarrow> True | nx # _ \<Rightarrow> len nx = 0))
      then (Some k, t)
      else find_loop_as_specified len rest (Suc k) (t - r) e)"

section \<open>JavaScript values and errors\<close>

text \<open>
  The values an attribute or blot can be given. The numbers of the model are the integers
  that a JavaScript number (a double) holds exactly: every integer of magnitude up to
  \<open>2^53\<close> and, beyond, the integers that \<open>to_double\<close> below leaves as they are.
  \<open>JNumber n\<close> stands for such an \<open>n\<close>. \<open>===\<close>, which \<open>Array.prototype.indexOf\<close> uses,
  is then equality of these values.
\<close>

datatype jsval = JUndefined | JNull | JBool bool | JNumber int | JString string

text \<open>
  The errors the code raises. \<open>ParchmentError\<close> is class \<open>o\<close> of the source
  (\<^verbatim>\<open>class o extends Error\<close>); the others are plain \<open>Error\<close>s or the \<open>TypeError\<close> of
  the runtime.
\<close>

datatype error =
    InvalidDefinition             \<comment> \<open>\<^verbatim>\<open>new o("Invalid definition")\<close>\<close>
  | CannotRegisterAbstract        \<comment> \<open>\<^verbatim>\<open>new o("Cannot register abstract class")\<close>\<close>
  | UnableToCreate                \<comment> \<open>\<^verbatim>\<open>new o(`Unable to create ${e} blot`)\<close>\<close>
  | MissingTagName                \<comment> \<open>\<^verbatim>\<open>new o("Blot definition missing tagName")\<close>\<close>
  | CannotWrap                    \<comment> \<open>\<^verbatim>\<open>new o(`Cannot wrap ${t}`)\<close>\<close>
  | AttemptToIsolateAtEnd         \<comment> \<open>\<^verbatim>\<open>new Error("Attempt to isolate at end")\<close>\<close>
  | InsertAfterBlockBoundaries    \<comment> \<open>\<^verbatim>\<open>new Error("Attempt to insertAt after block boundaries")\<close>\<close>
  | MaximumOptimizeIterations     \<comment> \<open>\<^verbatim>\<open>new Error("[Parchment] Maximum optimize iterations reached")\<close>\<close>
  | TypeError                     \<comment> \<open>a property read or a call on \<open>null\<close> or \<open>undefined\<close>\<close>
  | IndexSizeError                \<comment> \<open>the \<open>DOMException\<close> of \<open>splitText\<close> beyond the data\<close>
  | HierarchyRequestError         \<comment> \<open>the \<open>DOMException\<close> of \<open>appendChild\<close> on a text node\<close>
  | SyntaxError                   \<comment> \<open>\<open>JSON.parse\<close> on text that is not JSON\<close>
  | EmptyTokenError               \<comment> \<open>the \<open>DOMException\<close> named \<open>SyntaxError\<close> of \<open>classList.add("")\<close>\<close>
  | InvalidCharacterError         \<comment> \<open>the \<open>DOMException\<close> of \<open>classList.add\<close> on a token with white space\<close>

fun is_ParchmentError :: "error \<Rightarrow> bool" where
  "is_ParchmentError InvalidDefinition = True"
| "is_ParchmentError CannotRegisterAbstract = True"
| "is_ParchmentError UnableToCreate = True"
| "is_ParchmentError MissingTagName = True"
| "is_ParchmentError CannotWrap = True"
| "is_ParchmentError _ = False"

text \<open>
  The double nearest to a natural number: the number itself when it has at most 53 binary
  digits, and otherwise its first 53 binary digits, rounded to nearest with ties to the
  even significand (numbers beyond the largest double, which JavaScript turns into
  \<open>Infinity\<close>, are not numbers of the model).
\<close>

fun bit_length :: "nat \<Rightarrow> nat" where
  "bit_length n = (if n = 0 then 0 else Suc (bit_length (n div 2)))"

declare bit_length.simps [simp del]

definition to_double :: "nat \<Rightarrow> nat" where
  "to_double y =
     (if bit_length y \<le> 53 then y
      else
        (let e = bit_length y - 53; q = y div 2 ^ e; r = y mod 2 ^ e
         in if 2 ^ e < 2 * r \<or> (2 * r = 2 ^ e \<and> odd q) then (q + 1) * 2 ^ e else q * 2 ^ e))"

text \<open>
  \<open>String(v)\<close>, the conversion \<open>setAttribute\<close> applies to its value. For a number
  (\<open>Number::toString\<close>) the digits printed are those of the decimal number with the
  fewest significant digits that the double is the nearest double to
  (\<open>shortest_value\<close>: among the decimals with \<open>k\<close> significant digits the two around the
  number are tried, for \<open>k = 1, 2, ...\<close>; of two that qualify the closer one is taken, and
  the one with the even last digit when they are equally close). Below \<open>2^53\<close> that is
  the number itself. It is printed in full below \<open>10^21\<close> and in the exponent form from
  there on.
\<close>

fun digits :: "nat \<Rightarrow> string" where
  "digits n = (if n < 10 then [''0123456789'' ! n] else digits (n div 10) @ [''0123456789'' ! (n mod 10)])"

declare digits.simps [simp del]

definition decimals_around :: "nat \<Rightarrow> nat \<Rightarrow> nat list" where
  "decimals_around x d = [(x div 10 ^ d) * 10 ^ d, (x div 10 ^ d) * 10 ^ d + 10 ^ d]"

definition shortest_value :: "nat \<Rightarrow> nat" where
  "shortest_value x =
     (let n = length (digits x)
      in case List.find (\<lambda>k. filter (\<lambda>w. to_double w = x) (decimals_around x (n - k)) \<noteq> []) [1 ..< Suc n] of
           None \<Rightarrow> x
         | Some k \<Rightarrow>
             (case filter (\<lambda>w. to_double w = x) (decimals_around x (n - k)) of
                [lo, hi] \<Rightarrow>
                  (if x - lo < hi - x then lo
                   else if hi - x < x - lo then hi
                   else if even (lo div 10 ^ (n - k)) then lo else hi)
              | w # _ \<Rightarrow> w
              | [] \<Rightarrow> x))"

definition exponent_form :: "nat \<Rightarrow> string" where
  "exponent_form w =
     (let ds = digits w; significant = rev (dropWhile (\<lambda>c. c = CHR ''0'') (rev ds))
      in (case significant of
            [] \<Rightarrow> ''0''
          | [c] \<Rightarrow> [c]
          | c # cs \<Rightarrow> c # CHR ''.'' # cs) @ ''e+'' @ digits (length ds - 1))"

definition number_text :: "nat \<Rightarrow> string" where
  "number_text a =
     (let w = (if a < 2 ^ 53 then a else shortest_value (to_double a))
      in if w < 10 ^ 21 then digits w else exponent_form w)"

fun ToString :: "jsval \<Rightarrow> string" where
  "ToString JUndefined = ''undefined''"
| "ToString JNull = ''null''"
| "ToString (JBool b) = (if b then ''true'' else ''false'')"
| "ToString (JNumber n) = (if n < 0 then CHR ''-'' # number_text (nat (- n)) else number_text (nat n))"
| "ToString (JString s) = s"

section \<open>Host node attributes\<close>

text \<open>
  The attributes of a host element, in the order they were first set. \<open>getAttribute\<close>
  answers \<open>null\<close> (here \<open>None\<close>) for an attribute that is not there. On an HTML element
  of an HTML document \<open>setAttribute\<close>, \<open>getAttribute\<close> and \<open>removeAttribute\<close> first turn
  the name they are given into ASCII lower case.
\<close>

type_synonym attributes = "(string \<times> string) list"

definition lower_char :: "char \<Rightarrow> char" where
  "lower_char c =
     (case map_of (zip ''ABCDEFGHIJKLMNOPQRSTUVWXYZ'' ''abcdefghijklmnopqrstuvwxyz'') c of
        Some l \<Rightarrow> l
      | None \<Rightarrow> c)"

definition ascii_lowercase :: "string \<Rightarrow> string" where
  "ascii_lowercase s = map lower_char s"

definition setAttribute :: "string \<Rightarrow> string \<Rightarrow> attributes \<Rightarrow> attributes" where
  "setAttribute k v t = AList.update (ascii_lowercase k) v t"

definition getAttribute :: "string \<Rightarrow> attributes \<Rightarrow> string option" where
  "getAttribute k t = map_of t (ascii_lowercase k)"

definition removeAttribute :: "string \<Rightarrow> attributes \<Rightarrow> attributes" where
  "removeAttribute k t = AList.delete (ascii_lowercase k) t"

text \<open>
  \<open>classList\<close> is the list of the tokens of the \<open>class\<close> attribute: the pieces between
  ASCII white space (tab, line feed, form feed, carriage return, space), each once.
  \<open>classList.add(c1, ...)\<close> first checks the tokens it is given in their order and
  throws for an empty token (the \<open>DOMException\<close> named \<open>SyntaxError\<close>) or a token that
  holds ASCII white space (\<open>InvalidCharacterError\<close>); it then appends the tokens the list
  does not hold yet and writes the list back, separated by single spaces. With nothing to
  write and no \<open>class\<close> attribute there, none is made.
\<close>

definition is_ascii_whitespace :: "char \<Rightarrow> bool" where
  "is_ascii_whitespace c = (c \<in> set [CHR 0x09, CHR 0x0A, CHR 0x0C, CHR 0x0D, CHR 0x20])"

fun tokens_from :: "string \<Rightarrow> string \<Rightarrow> string list" where
  "tokens_from cur [] = (if cur = [] then [] else [rev cur])"
| "tokens_from cur (c # cs) =
     (if is_ascii_whitespace c
      then (if cur = [] then tokens_from [] cs else rev cur # tokens_from [] cs)
      else tokens_from (c # cur) cs)"

fun join_space :: "string list \<Rightarrow> string" where
  "join_space [] = []"
| "join_space [x] = x"
| "join_space (x # y # zs) = x @ CHR 0x20 # join_space (y # zs)"

definition append_new :: "string list \<Rightarrow> string list \<Rightarrow> string list" where
  "append_new tokens cs = foldl (\<lambda>acc c. if c \<in> set acc then acc else acc @ [c]) tokens cs"

definition class_tokens :: "attributes \<Rightarrow> string list" where
  "class_tokens t =
     append_new [] (tokens_from [] (case getAttribute ''class'' t of None \<Rightarrow> [] | Some c \<Rightarrow> c))"

fun token_error :: "string list \<Rightarrow> error option" where
  "token_error [] = None"
| "token_error (c # cs) =
     (if c = [] then Some EmptyTokenError
      else if list_ex is_ascii_whitespace c then Some InvalidCharacterError
      else token_error cs)"

definition classList_add :: "string list \<Rightarrow> attributes \<Rightarrow> error + attributes" where
  "classList_add cs t =
     (case token_error cs of
        Some err \<Rightarrow> Inl err
      | None \<Rightarrow>
          (let tokens = append_new (class_tokens t) cs
           in if tokens = [] \<and> getAttribute ''class'' t = None then Inr t
              else Inr (setAttribute ''class'' (join_space tokens) t)))"

section \<open>Attributor\<close>

text \<open>
  \<^verbatim>\<open>constructor(t,e,s={}){this.attrName=t,this.keyName=e;const i=r.TYPE&r.ATTRIBUTE;
    this.scope=null!=s.scope?s.scope&r.LEVEL|i:r.ATTRIBUTE,
    null!=s.whitelist&&(this.whitelist=s.whitelist)}\<close>
\<close>

record scoped =
  scope :: scope

record attributor = scoped +
  attrName :: string
  keyName :: string
  whitelist :: "jsval list option"

record attributor_options =
  opt_scope :: "scope option"
  opt_whitelist :: "jsval list option"

definition Attributor_new :: "string \<Rightarrow> string \<Rightarrow> attributor_options \<Rightarrow> attributor" where
  "Attributor_new t e s =
     (let i = Scope_TYPE AND Scope_ATTRIBUTE in
      \<lparr>scope = (case opt_scope s of Some sc \<Rightarrow> (sc AND Scope_LEVEL) OR i | None \<Rightarrow> Scope_ATTRIBUTE),
       attrName = t, keyName = e, whitelist = opt_whitelist s\<rparr>)"

text \<open>\<^verbatim>\<open>e.replace(/["']/g,"")\<close>: every double and single quote character is removed.\<close>

definition remove_quotes :: "string \<Rightarrow> string" where
  "remove_quotes s = filter (\<lambda>c. c \<noteq> CHR 0x22 \<and> c \<noteq> CHR 0x27) s"

text \<open>
  \<^verbatim>\<open>canAdd(t,e){return null==this.whitelist||("string"==typeof e?
    this.whitelist.indexOf(e.replace(/["']/g,""))>-1:this.whitelist.indexOf(e)>-1)}\<close>
\<close>

definition canAdd :: "attributor \<Rightarrow> jsval \<Rightarrow> bool" where
  "canAdd a e =
     (case whitelist a of
        None \<Rightarrow> True
      | Some wl \<Rightarrow>
          (case e of JString s \<Rightarrow> JString (remove_quotes s) \<in> set wl | _ \<Rightarrow> e \<in> set wl))"

text \<open>
  \<^verbatim>\<open>add(t,e){return!!this.canAdd(t,e)&&(t.setAttribute(this.keyName,e),!0)}\<close>
  The result is the returned boolean and the node's attributes afterwards. The key name
  of an attributor is taken to be a name that \<open>setAttribute\<close> accepts.
\<close>

definition Attributor_add :: "attributor \<Rightarrow> attributes \<Rightarrow> jsval \<Rightarrow> bool \<times> attributes" where
  "Attributor_add a t e =
     (if canAdd a e then (True, setAttribute (keyName a) (ToString e) t) else (False, t))"

text \<open>\<^verbatim>\<open>remove(t){t.removeAttribute(this.keyName)}\<close>\<close>

definition Attributor_remove :: "attributor \<Rightarrow> attributes \<Rightarrow> attributes" where
  "Attributor_remove a t = removeAttribute (keyName a) t"

text \<open>
  \<^verbatim>\<open>value(t){const e=t.getAttribute(this.keyName);return this.canAdd(t,e)&&e?e:""}\<close>
  \<open>e\<close> is a string or \<open>null\<close>; the empty string and \<open>null\<close> are falsy.
\<close>

definition Attributor_value :: "attributor \<Rightarrow> attributes \<Rightarrow> string" where
  "Attributor_value a t =
     (case getAttribute (keyName a) t of
        None \<Rightarrow> []
      | Some e \<Rightarrow> (if canAdd a (JString e) \<and> e \<noteq> [] then e else []))"

text \<open>
  The whitelist comparison as the specification words it: the value "with surrounding
  quote characters stripped", that is, quote characters taken off the two ends only.
  Only this definition follows the specification; it is compared with \<open>canAdd\<close> below.
\<close>

definition is_quote :: "char \<Rightarrow> bool" where
  "is_quote c = (c = CHR 0x22 \<or> c = CHR 0x27)"

definition strip_surrounding_quotes :: "string \<Rightarrow> string" where
  "strip_surrounding_quotes s = rev (dropWhile is_quote (rev (dropWhile is_quote s)))"

definition canAdd_as_specified :: "attributor \<Rightarrow> jsval \<Rightarrow> bool" where
  "canAdd_as_specified a e =
     (case whitelist a of
        None \<Rightarrow> True
      | Some wl \<Rightarrow>
          (case e of JString s \<Rightarrow> JString (strip_surrounding_quotes s) \<in> set wl | _ \<Rightarrow> e \<in> set wl))"

section \<open>Registry\<close>

text \<open>
  What can be registered: a blot class (its static fields) or an attributor instance.
  \<open>variant\<close> names the class of \<open>parchment.js\<close> whose methods the blot class inherits;
  \<open>defaultChild\<close> is the \<open>blotName\<close> of the class the static field points to.
\<close>

datatype tag_spec = TagName string | TagNames "string list"

datatype variant = LeafV | EmbedV | TextV | ParentV | ContainerV | InlineV | BlockV | ScrollV

record blot_class = scoped +
  blotName :: "string option"
  className :: "string option"
  tagName :: "tag_spec option"
  variant :: variant
  defaultChild :: "string option"

datatype registrable = BlotClass blot_class | AttributorInstance attributor

fun def_blotName :: "registrable \<Rightarrow> string option" where
  "def_blotName (BlotClass c) = blotName c"
| "def_blotName (AttributorInstance a) = None"

fun def_attrName :: "registrable \<Rightarrow> string option" where
  "def_attrName (BlotClass c) = None"
| "def_attrName (AttributorInstance a) = Some (attrName a)"

fun def_keyName :: "registrable \<Rightarrow> string option" where
  "def_keyName (BlotClass c) = None"
| "def_keyName (AttributorInstance a) = Some (keyName a)"

fun def_className :: "registrable \<Rightarrow> string option" where
  "def_className (BlotClass c) = className c"
| "def_className (AttributorInstance a) = None"

fun def_tagName :: "registrable \<Rightarrow> tag_spec option" where
  "def_tagName (BlotClass c) = tagName c"
| "def_tagName (AttributorInstance a) = None"

fun def_scope :: "registrable \<Rightarrow> scope" where
  "def_scope (BlotClass c) = scope c"
| "def_scope (AttributorInstance a) = scope a"

text \<open>
  \<open>String.prototype.toUpperCase\<close>. The definition is the code's on strings of ASCII
  characters (\<open>ascii\<close>); it leaves a letter beyond ASCII as it is, which JavaScript
  does not, so the properties that depend on the upper-case form of a tag name are stated
  for ASCII tag names.
\<close>

definition ascii :: "string \<Rightarrow> bool" where
  "ascii s = list_all (\<lambda>c. (of_char c :: nat) < 128) s"

definition upper_char :: "char \<Rightarrow> char" where
  "upper_char c =
     (case map_of (zip ''abcdefghijklmnopqrstuvwxyz'' ''ABCDEFGHIJKLMNOPQRSTUVWXYZ'') c of
        Some u \<Rightarrow> u
      | None \<Rightarrow> c)"

definition toUpperCase :: "string \<Rightarrow> string" where
  "toUpperCase s = map upper_char s"

fun upper_tags :: "tag_spec \<Rightarrow> tag_spec" where
  "upper_tags (TagName t) = TagName (toUpperCase t)"
| "upper_tags (TagNames ts) = TagNames (map toUpperCase ts)"

fun tag_list :: "tag_spec \<Rightarrow> string list" where
  "tag_list (TagName t) = [t]"
| "tag_list (TagNames ts) = ts"

fun set_tagName :: "registrable \<Rightarrow> tag_spec \<Rightarrow> registrable" where
  "set_tagName (BlotClass c) ts = BlotClass (c\<lparr>tagName := Some ts\<rparr>)"
| "set_tagName (AttributorInstance a) ts = AttributorInstance a"

text \<open>
  The four indexes of a registry are plain objects (\<^verbatim>\<open>this.classes={}\<close>) used as
  dictionaries. Reading \<open>obj[k]\<close> gives the value stored under the own key \<open>k\<close>, and
  for a key the object does not own the member of that name inherited from
  \<open>Object.prototype\<close>, when there is one: a function (or, under \<open>__proto__\<close>, the
  prototype object), which is truthy and has no \<open>scope\<close>. Otherwise the result is
  \<open>undefined\<close>.

  An assignment \<open>obj["__proto__"] = e\<close> makes no own property: it replaces the prototype
  of the dictionary by \<open>e\<close>, and reading the key gives \<open>e\<close> back. The entry of the map
  under that key stands for this. The keys the dictionary then inherits from \<open>e\<close>
  itself are members of the registered object that these sources do not fix; they are not
  modelled, and properties of lookups are stated for dictionaries without such an entry.
\<close>

definition object_prototype_names :: "string list" where
  "object_prototype_names =
     [''constructor'', ''__defineGetter__'', ''__defineSetter__'', ''hasOwnProperty'',
      ''__lookupGetter__'', ''__lookupSetter__'', ''isPrototypeOf'', ''propertyIsEnumerable'',
      ''toString'', ''valueOf'', ''__proto__'', ''toLocaleString'']"

datatype member =
    NoMember                \<comment> \<open>\<open>undefined\<close>\<close>
  | Registered registrable  \<comment> \<open>the definition stored under the key\<close>
  | Inherited               \<comment> \<open>a member of \<open>Object.prototype\<close>\<close>

definition obj_get :: "(string \<rightharpoonup> registrable) \<Rightarrow> string \<Rightarrow> member" where
  "obj_get m k =
     (case m k of
        Some v \<Rightarrow> Registered v
      | None \<Rightarrow> (if k \<in> set object_prototype_names then Inherited else NoMember))"

record registry =
  attributes :: "string \<rightharpoonup> registrable"
  classes :: "string \<rightharpoonup> registrable"
  tags :: "string \<rightharpoonup> registrable"
  types :: "string \<rightharpoonup> registrable"

definition Registry_new :: registry where
  "Registry_new = \<lparr>attributes = Map.empty, classes = Map.empty, tags = Map.empty, types = Map.empty\<rparr>"

text \<open>\<^verbatim>\<open>e.blotName||e.attrName\<close> as a property key: an empty name is falsy, and \<open>undefined\<close>
  becomes the key \<open>"undefined"\<close>.\<close>

definition types_key :: "registrable \<Rightarrow> string" where
  "types_key e =
     (case def_blotName e of
        Some b \<Rightarrow> (if b \<noteq> [] then b else (case def_attrName e of Some a \<Rightarrow> a | None \<Rightarrow> ''undefined''))
      | None \<Rightarrow> (case def_attrName e of Some a \<Rightarrow> a | None \<Rightarrow> ''undefined''))"

text \<open>
  \<^verbatim>\<open>(Array.isArray(e.tagName)?e.tagName:[e.tagName]).forEach(t=>{
     null!=this.tags[t]&&null!=e.className||(this.tags[t]=e)})\<close>
\<close>

definition index_tag :: "registrable \<Rightarrow> (string \<rightharpoonup> registrable) \<Rightarrow> string \<Rightarrow> (string \<rightharpoonup> registrable)" where
  "index_tag e tgs t = (if obj_get tgs t \<noteq> NoMember \<and> def_className e \<noteq> None then tgs else tgs(t \<mapsto> e))"

text \<open>
  \<open>register\<close> for one definition. \<open>e.tagName\<close> is overwritten with its upper-case form
  on the registered object itself, so every index holds the updated definition, which is
  also what is returned.

  \<^verbatim>\<open>const e=t[0];if("string"!=typeof e.blotName&&"string"!=typeof e.attrName)
     throw new o("Invalid definition");
   if("abstract"===e.blotName)throw new o("Cannot register abstract class");
   if(this.types[e.blotName||e.attrName]=e,"string"==typeof e.keyName)
     this.attributes[e.keyName]=e;
   else if(null!=e.className&&(this.classes[e.className]=e),null!=e.tagName){...}
   return e\<close>
\<close>

definition register :: "registry \<Rightarrow> registrable \<Rightarrow> error + (registry \<times> registrable)" where
  "register reg e =
     (if def_blotName e = None \<and> def_attrName e = None then Inl InvalidDefinition
      else if def_blotName e = Some ''abstract'' then Inl CannotRegisterAbstract
      else
        (case def_keyName e of
           Some k \<Rightarrow> Inr (reg\<lparr>attributes := (attributes reg)(k \<mapsto> e), types := (types reg)(types_key e \<mapsto> e)\<rparr>, e)
         | None \<Rightarrow>
            (let e' = (case def_tagName e of None \<Rightarrow> e | Some ts \<Rightarrow> set_tagName e (upper_tags ts));
                 cls = (case def_className e of None \<Rightarrow> classes reg | Some c \<Rightarrow> (classes reg)(c \<mapsto> e'));
                 tgs = (case def_tagName e' of None \<Rightarrow> tags reg
                        | Some ts \<Rightarrow> foldl (index_tag e') (tags reg) (tag_list ts))
             in Inr (reg\<lparr>classes := cls, tags := tgs, types := (types reg)(types_key e \<mapsto> e')\<rparr>, e'))))"

text \<open>\<open>register(...t)\<close> with several definitions registers them from left to right.\<close>

fun register_all :: "registry \<Rightarrow> registrable list \<Rightarrow> error + registry" where
  "register_all reg [] = Inr reg"
| "register_all reg (e # es) =
     (case register reg e of Inl err \<Rightarrow> Inl err | Inr (reg', _) \<Rightarrow> register_all reg' es)"

text \<open>
  \<^verbatim>\<open>split(/\s+/)\<close>: the pieces between maximal runs of white space. Of the code units
  up to 255 the class \<open>\s\<close> holds 9 to 13, 32 and 160 (the no-break space).
\<close>

definition is_space :: "char \<Rightarrow> bool" where
  "is_space c = (c \<in> set [CHR 0x20, CHR 0x09, CHR 0x0A, CHR 0x0B, CHR 0x0C, CHR 0x0D, CHR 0xA0])"

fun split_space_from :: "string \<Rightarrow> bool \<Rightarrow> string \<Rightarrow> string list" where
  "split_space_from cur insep [] = [rev cur]"
| "split_space_from cur insep (c # cs) =
     (if is_space c then
        (if insep then split_space_from cur True cs else rev cur # split_space_from [] True cs)
      else split_space_from (c # cur) False cs)"

definition split_space :: "string \<Rightarrow> string list" where
  "split_space s = split_space_from [] False s"

text \<open>
  The selectors \<open>query\<close> tells apart: a string, a text node, a number, an
  \<open>HTMLElement\<close> (its \<open>class\<close> attribute and its \<open>tagName\<close>), anything else.
\<close>

datatype selector =
    SelString string
  | SelTextNode
  | SelNumber scope
  | SelElement "string option" string
  | SelOther

text \<open>
  \<^verbatim>\<open>xs.some(t=>!!(s=this.classes[t]))\<close>: \<open>s\<close> is the first truthy value read, or
  \<open>undefined\<close>.
\<close>

fun first_hit :: "(string \<rightharpoonup> registrable) \<Rightarrow> string list \<Rightarrow> member" where
  "first_hit m [] = NoMember"
| "first_hit m (k # ks) = (case obj_get m k of NoMember \<Rightarrow> first_hit m ks | s \<Rightarrow> s)"

text \<open>
  \<^verbatim>\<open>query(t,e=r.ANY){let s;if("string"==typeof t)s=this.types[t]||this.attributes[t];
    else if(t instanceof Text||t.nodeType===Node.TEXT_NODE)s=this.types.text;
    else if("number"==typeof t)t&r.LEVEL&r.BLOCK?s=this.types.block:
      t&r.LEVEL&r.INLINE&&(s=this.types.inline);
    else if(t instanceof HTMLElement){(t.getAttribute("class")||"").split(/\s+/)
      .some(t=>!!(s=this.classes[t])),s=s||this.tags[t.tagName]}
    return null==s?null:e&r.LEVEL&s.scope&&e&r.TYPE&s.scope?s:null}\<close>
\<close>

text \<open>
  \<open>resolve\<close> is the value of \<open>s\<close> at the \<open>return\<close>. For an inherited member
  \<open>s.scope\<close> is \<open>undefined\<close>, the conjunction of the mask with it is 0, and the answer
  is \<open>null\<close>.
\<close>

definition resolve :: "registry \<Rightarrow> selector \<Rightarrow> member" where
  "resolve reg t =
     (case t of
        SelString n \<Rightarrow> (case obj_get (types reg) n of NoMember \<Rightarrow> obj_get (attributes reg) n | s \<Rightarrow> s)
      | SelTextNode \<Rightarrow> obj_get (types reg) ''text''
      | SelNumber n \<Rightarrow>
          (if (n AND Scope_LEVEL) AND Scope_BLOCK \<noteq> 0 then obj_get (types reg) ''block''
           else if (n AND Scope_LEVEL) AND Scope_INLINE \<noteq> 0 then obj_get (types reg) ''inline''
           else NoMember)
      | SelElement cls tg \<Rightarrow>
          (case first_hit (classes reg) (split_space (case cls of None \<Rightarrow> [] | Some c \<Rightarrow> c)) of
             NoMember \<Rightarrow> obj_get (tags reg) tg
           | s \<Rightarrow> s)
      | SelOther \<Rightarrow> NoMember)"

definition query :: "registry \<Rightarrow> selector \<Rightarrow> scope \<Rightarrow> registrable option" where
  "query reg t e =
     (case resolve reg t of
        NoMember \<Rightarrow> None
      | Inherited \<Rightarrow> None
      | Registered s \<Rightarrow>
          (if (e AND Scope_LEVEL) AND def_scope s \<noteq> 0 \<and> (e AND Scope_TYPE) AND def_scope s \<noteq> 0
           then Some s else None))"

text \<open>
  A definition takes over tag \<open>T\<close> when \<open>register\<close> reaches the tag loop for it
  (it has no \<open>keyName\<close>), \<open>T\<close> is one of its upper-cased tags, and it has no
  \<open>className\<close>.
\<close>

definition displaces :: "string \<Rightarrow> registrable \<Rightarrow> bool" where
  "displaces T d =
     (def_keyName d = None \<and> def_className d = None \<and>
      (case def_tagName d of None \<Rightarrow> False | Some ts \<Rightarrow> T \<in> set (tag_list (upper_tags ts))))"

text \<open>The tag names of a definition are ASCII, so that \<open>toUpperCase\<close> is the code's on them.\<close>

definition ascii_tags :: "registrable \<Rightarrow> bool" where
  "ascii_tags d = (case def_tagName d of None \<Rightarrow> True | Some ts \<Rightarrow> list_all ascii (tag_list ts))"

section \<open>Example registrations\<close>

definition paragraph_class :: blot_class where
  "paragraph_class = \<lparr>scope = Scope_BLOCK_BLOT, blotName = Some ''paragraph'', className = None,
            tagName = Some (TagName ''p''), variant = BlockV, defaultChild = None\<rparr>"

definition lead_class :: blot_class where
  "lead_class = \<lparr>scope = Scope_BLOCK_BLOT, blotName = Some ''lead'', className = None,
            tagName = Some (TagName ''p''), variant = BlockV, defaultChild = None\<rparr>"

definition color_opts :: attributor_options where
  "color_opts = \<lparr>opt_scope = Some Scope_INLINE_BLOT, opt_whitelist = None\<rparr>"

definition font_attr :: attributor where
  "font_attr = Attributor_new ''font'' ''data-font''
      \<lparr>opt_scope = Some Scope_INLINE, opt_whitelist = Some [JString ''serif'', JString ''ab'']\<rparr>"

definition callout_class :: blot_class where
  "callout_class = \<lparr>scope = Scope_BLOCK_BLOT, blotName = Some ''callout'', className = Some ''callout'',
            tagName = Some (TagName ''p''), variant = BlockV, defaultChild = None\<rparr>"

section \<open>The optimize loop of the root (class \<open>ScrollBlot\<close>)\<close>

text \<open>
  \<^verbatim>\<open>optimize(t=[],e={}){super.optimize(e);const s=e.mutationsMap||new WeakMap;
    let i=Array.from(this.observer.takeRecords());for(;i.length>0;)t.push(i.pop());
    const r=(t,e=!0)=>{...},n=t=>{...};let o=t;
    for(let e=0;o.length>0;e+=1){
      if(e>=w)throw new Error("[Parchment] Maximum optimize iterations reached");
      for(o.forEach(t=>{...r(...)...}),this.children.forEach(n),
          i=(o=Array.from(this.observer.takeRecords())).slice();i.length>0;)t.push(i.pop())}}\<close>
  with \<^verbatim>\<open>w=100\<close>.

  The state \<open>'s\<close> is everything the loop works on: the blot tree, the map of dirty
  host nodes \<open>s\<close> and the records the host's \<open>MutationObserver\<close> has queued. The host
  and the blots' own \<open>optimize\<close> methods are parameters:
  \<^item> \<open>takeRecords\<close> empties the observer's queue and returns the records;
  \<^item> \<open>mark\<close> is \<open>o.forEach(...)\<close>, which enters the blots the records implicate, and
    their ancestors, into the dirty map;
  \<^item> \<open>visit\<close> is \<open>this.children.forEach(n)\<close>, which optimizes the dirty blots, children
    before parents, and may throw;
  \<^item> \<open>super_optimize\<close> is \<open>ParentBlot.optimize\<close> on the root.
  \<open>t.push(i.pop())\<close> until \<open>i\<close> is empty appends the reverse of \<open>i\<close> to \<open>t\<close>. The loop
  variable \<open>e\<close>, the number of passes made, is returned with the records and the state.
\<close>

definition MAX_OPTIMIZE_ITERATIONS :: nat where
  "MAX_OPTIMIZE_ITERATIONS = 100"

function optimize_loop ::
  "('s \<Rightarrow> 'r list \<times> 's) \<Rightarrow> ('r list \<Rightarrow> 's \<Rightarrow> 's) \<Rightarrow> ('s \<Rightarrow> error + 's) \<Rightarrow>
   nat \<Rightarrow> 'r list \<Rightarrow> 'r list \<Rightarrow> 's \<Rightarrow> error + (nat \<times> 'r list \<times> 's)" where
  "optimize_loop takeRecords mark visit e o' t st =
     (if o' \<noteq> [] then
        (if e \<ge> MAX_OPTIMIZE_ITERATIONS then Inl MaximumOptimizeIterations
         else
           (case visit (mark o' st) of
              Inl err \<Rightarrow> Inl err
            | Inr st1 \<Rightarrow>
                (case takeRecords st1 of
                   (i, st2) \<Rightarrow> optimize_loop takeRecords mark visit (e + 1) i (t @ rev i) st2)))
      else Inr (e, t, st))"
  by pat_completeness auto
termination
  by (relation "measure (\<lambda>(takeRecords, mark, visit, e, o', t, st). MAX_OPTIMIZE_ITERATIONS - e)") auto

declare optimize_loop.simps [simp del]

definition ScrollBlot_optimize ::
  "('s \<Rightarrow> error + 's) \<Rightarrow> ('s \<Rightarrow> 'r list \<times> 's) \<Rightarrow> ('r list \<Rightarrow> 's \<Rightarrow> 's) \<Rightarrow> ('s \<Rightarrow> error + 's) \<Rightarrow>
   'r list \<Rightarrow> 's \<Rightarrow> error + (nat \<times> 'r list \<times> 's)" where
  "ScrollBlot_optimize super_optimize takeRecords mark visit t st =
     (case super_optimize st of
        Inl err \<Rightarrow> Inl err
      | Inr st0 \<Rightarrow>
          (case takeRecords st0 of
             (i, st1) \<Rightarrow> optimize_loop takeRecords mark visit 0 (t @ rev i) (t @ rev i) st1))"

text \<open>
  The records pending, and the state, when the loop test is reached for the \<open>k\<close>-th time
  after \<open>k\<close> full passes; \<open>None\<close> when the loop has ended or a pass has thrown before.
\<close>

fun pending_after ::
  "('s \<Rightarrow> 'r list \<times> 's) \<Rightarrow> ('r list \<Rightarrow> 's \<Rightarrow> 's) \<Rightarrow> ('s \<Rightarrow> error + 's) \<Rightarrow>
   nat \<Rightarrow> 'r list \<Rightarrow> 's \<Rightarrow> ('r list \<times> 's) option" where
  "pending_after takeRecords mark visit 0 o' st = Some (o', st)"
| "pending_after takeRecords mark visit (Suc k) o' st =
     (if o' = [] then None
      else
        (case visit (mark o' st) of
           Inl err \<Rightarrow> None
         | Inr st1 \<Rightarrow> (case takeRecords st1 of (i, st2) \<Rightarrow> pending_after takeRecords mark visit k i st2)))"

text \<open>
  Two hosts for the examples. The state is a counter. The first host has a new record
  every time it is asked; the second has one record per remaining unit of the counter
  and none once it has reached 0.
\<close>

definition restless_host :: "nat \<Rightarrow> nat list \<times> nat" where
  "restless_host n = ([n], Suc n)"

definition settling_host :: "nat \<Rightarrow> nat list \<times> nat" where
  "settling_host n = (case n of 0 \<Rightarrow> ([], 0) | Suc m \<Rightarrow> ([n], m))"

section \<open>Blots\<close>

text \<open>
  A blot owns one host node. \<open>host\<close> is what the registry and \<open>cloneNode(false)\<close> look
  at: for an element its tag and attributes, for a text node its data. A blot carries its
  class (\<open>this.statics\<close>) and is one of three shapes, after the class of \<open>parchment.js\<close>
  that implements it:
  \<^item> \<open>TextBlot\<close> (class \<open>_\<close> of the source) with its cached \<open>text\<close>, which mirrors the data of
    its text node (\<open>normalize()\<close> is the identity on the strings of this model);
  \<^item> \<open>LeafBlot\<close> (classes \<open>f\<close>, \<open>L\<close>), whose \<open>length()\<close> is \<open>ShadowBlot\<close>'s: 1;
  \<^item> \<open>ParentBlot\<close> (class \<open>c\<close> and its subclasses) with the sequence of its \<open>children\<close>.
  \<open>parent\<close>, \<open>prev\<close> and \<open>next\<close> are the position of a blot in the tree.
\<close>

datatype host = HostElement string attributes | HostText string

datatype blot =
    TextBlot blot_class string
  | LeafBlot blot_class host
  | ParentBlot blot_class host "blot list"

fun statics :: "blot \<Rightarrow> blot_class" where
  "statics (TextBlot c s) = c"
| "statics (LeafBlot c h) = c"
| "statics (ParentBlot c h cs) = c"

text \<open>
  \<^verbatim>\<open>length(){return 1}\<close> (ShadowBlot), \<^verbatim>\<open>length(){return this.text.length}\<close> (TextBlot),
  \<^verbatim>\<open>length(){return this.children.reduce((t,e)=>t+e.length(),0)}\<close> (ParentBlot).
\<close>

fun blot_length :: "blot \<Rightarrow> int" where
  "blot_length (TextBlot c s) = int (length s)"
| "blot_length (LeafBlot c h) = 1"
| "blot_length (ParentBlot c h cs) = sum_list (map blot_length cs)"

text \<open>The selector a host node is for \<open>query\<close>.\<close>

fun host_selector :: "host \<Rightarrow> selector" where
  "host_selector (HostElement tg attrs) = SelElement (getAttribute ''class'' attrs) tg"
| "host_selector (HostText d) = SelTextNode"

text \<open>
  The constructors. A parent's constructor runs \<open>build()\<close> over the child nodes of its
  host node; the host nodes made by \<open>createElement\<close> and \<open>cloneNode(false)\<close> have none.
  The text constructor reads \<open>domNode.data\<close>, which is \<open>undefined\<close> on an element, and
  calls a method on it.
\<close>

definition is_parent_variant :: "variant \<Rightarrow> bool" where
  "is_parent_variant v = (v \<in> set [ParentV, ContainerV, InlineV, BlockV, ScrollV])"

definition construct :: "blot_class \<Rightarrow> host \<Rightarrow> error + blot" where
  "construct c h =
     (if variant c = TextV then (case h of HostText d \<Rightarrow> Inr (TextBlot c d) | HostElement _ _ \<Rightarrow> Inl TypeError)
      else if is_parent_variant (variant c) then Inr (ParentBlot c h [])
      else Inr (LeafBlot c h))"

text \<open>
  \<open>create\<close> for a host node: \<^verbatim>\<open>const i=this.query(e);if(null==i)throw new o(...);
  const r=i,n=new r(t,e instanceof Node||e.nodeType===Node.TEXT_NODE?e:r.create(s),s)\<close>.
  An attributor instance is not a constructor.
\<close>

definition create_for_node :: "registry \<Rightarrow> host \<Rightarrow> error + blot" where
  "create_for_node reg h =
     (case query reg (host_selector h) Scope_ANY of
        None \<Rightarrow> Inl UnableToCreate
      | Some (AttributorInstance a) \<Rightarrow> Inl TypeError
      | Some (BlotClass c) \<Rightarrow> construct c h)"

text \<open>\<^verbatim>\<open>clone(){const t=this.domNode.cloneNode(!1);return this.scroll.create(t)}\<close>\<close>

fun host_of :: "blot \<Rightarrow> host" where
  "host_of (TextBlot c s) = HostText s"
| "host_of (LeafBlot c h) = h"
| "host_of (ParentBlot c h cs) = h"

definition clone :: "registry \<Rightarrow> blot \<Rightarrow> error + blot" where
  "clone reg b = create_for_node reg (host_of b)"

text \<open>
  \<^verbatim>\<open>appendChild(t){this.insertBefore(t)}\<close>, where \<open>insertBefore\<close> puts the blot at the end of
  \<open>this.children\<close> and its host node at the end of \<open>this.domNode\<close>. Only a parent has
  the method, and the host's own \<open>insertBefore\<close> throws on a text node, which takes no
  children. \<open>append_children\<close> is \<open>appendChild\<close> for each blot of a list in turn.
\<close>

fun appendChild :: "blot \<Rightarrow> blot \<Rightarrow> error + blot" where
  "appendChild (ParentBlot c (HostElement tg attrs) cs) n = Inr (ParentBlot c (HostElement tg attrs) (cs @ [n]))"
| "appendChild (ParentBlot c (HostText d) cs) n = Inl HierarchyRequestError"
| "appendChild b n = Inl TypeError"

fun append_children :: "blot \<Rightarrow> blot list \<Rightarrow> error + blot" where
  "append_children b [] = Inr b"
| "append_children b (n # ns) =
     (case appendChild b n of Inl err \<Rightarrow> Inl err | Inr b' \<Rightarrow> append_children b' ns)"

text \<open>
  What \<open>split\<close> returns: the blot itself, its next sibling (\<open>this.next\<close>, which may be
  \<open>null\<close>), or a blot it has made. The model returns the blot as it is after the call
  together with this value. A blot that was made has also been inserted into
  \<open>this.parent\<close> directly after the blot, when there is a parent.
\<close>

datatype split_result = ReturnsSelf | ReturnsNext | ReturnsNew blot

text \<open>
  \<^verbatim>\<open>split(t,e){return 0===t?this:this.next}\<close> (ShadowBlot)

  \<^verbatim>\<open>split(t,e=!1){if(!e){if(0===t)return this;if(t===this.length())return this.next}
    const s=this.scroll.create(this.domNode.splitText(t));
    return this.parent.insertBefore(s,this.next||void 0),
      this.text=this.statics.value(this.domNode),s}\<close> (TextBlot)

  \<^verbatim>\<open>split(t,e=!1){if(!e){if(0===t)return this;if(t===this.length())return this.next}
    const s=this.clone();return this.parent&&this.parent.insertBefore(s,this.next||void 0),
      this.children.forEachAt(t,this.length(),(t,i,r)=>{
        const n=t.split(i,e);null!=n&&s.appendChild(n)}),s}\<close> (ParentBlot)

  \<^verbatim>\<open>forEachAt(t,e,s){if(e<=0)return;const[i,r]=this.find(t);let n=t-r;
    const o=this.iterator(i);let a=o();for(;a&&n<t+e;){const i=a.length();
      t>n?s(a,t-n,Math.min(e,n+i-t)):s(a,0,Math.min(i,t+e-n)),n+=i,a=o()}}\<close>

  \<open>splitText\<close> raises \<open>IndexSizeError\<close> for an offset beyond the data (a negative offset
  is read as an unsigned 32-bit number, which is beyond the data of any JavaScript string). \<open>attached\<close> says whether the
  blot has a parent. The iterator of \<open>forEachAt\<close> reads \<open>a.next\<close> before the callback runs
  on \<open>a\<close>, so the walk goes over the children as they were before the call; \<open>split_walk\<close>
  is that walk from the entry \<open>find\<close> returned, with the running offset \<open>n\<close>, and gives
  the children that stay and the blots appended to the clone, in order. When a child
  returns its next sibling, that sibling is appended to the clone, becomes the clone's
  last child, and the walk, continuing from it, ends after it.
\<close>

function split :: "registry \<Rightarrow> bool \<Rightarrow> blot \<Rightarrow> int \<Rightarrow> bool \<Rightarrow> error + (blot \<times> split_result)"
  and split_walk :: "registry \<Rightarrow> blot list \<Rightarrow> int \<Rightarrow> int \<Rightarrow> int \<Rightarrow> bool \<Rightarrow> error + (blot list \<times> blot list)" where
  "split reg attached (LeafBlot c h) t e =
     Inr (LeafBlot c h, if t = 0 then ReturnsSelf else ReturnsNext)"
| "split reg attached (TextBlot c s) t e =
     (if \<not> e \<and> t = 0 then Inr (TextBlot c s, ReturnsSelf)
      else if \<not> e \<and> t = int (length s) then Inr (TextBlot c s, ReturnsNext)
      else if t < 0 \<or> int (length s) < t then Inl IndexSizeError
      else
        (case create_for_node reg (HostText (drop (nat t) s)) of
           Inl err \<Rightarrow> Inl err
         | Inr nb \<Rightarrow>
             if attached then Inr (TextBlot c (take (nat t) s), ReturnsNew nb) else Inl TypeError))"
| "split reg attached (ParentBlot c h cs) t e =
     (if \<not> e \<and> t = 0 then Inr (ParentBlot c h cs, ReturnsSelf)
      else if \<not> e \<and> t = blot_length (ParentBlot c h cs) then Inr (ParentBlot c h cs, ReturnsNext)
      else
        (case clone reg (ParentBlot c h cs) of
           Inl err \<Rightarrow> Inl err
         | Inr s \<Rightarrow>
             (if blot_length (ParentBlot c h cs) \<le> 0 then Inr (ParentBlot c h cs, ReturnsNew s)
              else
                (case LinkedList_find blot_length cs t False of
                   (None, r) \<Rightarrow> Inr (ParentBlot c h cs, ReturnsNew s)
                 | (Some i, r) \<Rightarrow>
                     (case split_walk reg (drop i cs) (t - r) t (blot_length (ParentBlot c h cs)) e of
                        Inl err \<Rightarrow> Inl err
                      | Inr (kept, moved) \<Rightarrow>
                          (case append_children s moved of
                             Inl err \<Rightarrow> Inl err
                           | Inr s' \<Rightarrow> Inr (ParentBlot c h (take i cs @ kept), ReturnsNew s')))))))"
| "split_walk reg [] n t e force = Inr ([], [])"
| "split_walk reg (a # rest) n t e force =
     (if n < t + e then
        (case split reg True a (if t > n then t - n else 0) force of
           Inl err \<Rightarrow> Inl err
         | Inr (a', ReturnsSelf) \<Rightarrow>
             (case split_walk reg rest (n + blot_length a) t e force of
                Inl err \<Rightarrow> Inl err
              | Inr (kept, moved) \<Rightarrow> Inr (kept, a' # moved))
         | Inr (a', ReturnsNew nb) \<Rightarrow>
             (case split_walk reg rest (n + blot_length a) t e force of
                Inl err \<Rightarrow> Inl err
              | Inr (kept, moved) \<Rightarrow> Inr (a' # kept, nb # moved))
         | Inr (a', ReturnsNext) \<Rightarrow>
             (case rest of
                [] \<Rightarrow> Inr ([a'], [])
              | x # xs \<Rightarrow>
                  (if n + blot_length a < t + e then
                     (case split reg True x (if t > n + blot_length a then t - (n + blot_length a) else 0) force of
                        Inl err \<Rightarrow> Inl err
                      | Inr (x', ReturnsNew nb) \<Rightarrow> Inr (a' # xs, [x', nb])
                      | Inr (x', _) \<Rightarrow> Inr (a' # xs, [x']))
                   else Inr (a' # xs, [x]))))
      else Inr (a # rest, []))"
  by pat_completeness auto
termination
proof -
  have dl: "size_list f (drop k xs) \<le> size_list f xs" for f :: "blot \<Rightarrow> nat" and k xs
  proof (induction xs arbitrary: k)
    case Nil
    then show ?case by simp
  next
    case (Cons x xs)
    show ?case
    proof (cases k)
      case 0
      then show ?thesis by simp
    next
      case (Suc m)
      with Cons [of m] show ?thesis by simp
    qed
  qed
  show ?thesis
    by (relation "measure (\<lambda>x. case x of Inl (reg, att, b, t, e) \<Rightarrow> size b
                                 | Inr (reg, xs, n, t, e, f) \<Rightarrow> size_list size xs)")
       (auto simp: dl less_Suc_eq_le)
qed

declare split.simps [simp del] split_walk.simps [simp del]

text \<open>
  The content of a blot, read from left to right: the characters of its text blots and
  its leaf blots. Every unit of \<open>length()\<close> is one item.
\<close>

datatype item = Character char | Leaf blot_class host

fun content :: "blot \<Rightarrow> item list" where
  "content (TextBlot c s) = map Character s"
| "content (LeafBlot c h) = [Leaf c h]"
| "content (ParentBlot c h cs) = concat (map content cs)"






fun is_leaf :: "blot \<Rightarrow> bool" where
  "is_leaf (LeafBlot c h) = True"
| "is_leaf _ = False"









definition text_class :: blot_class where
  "text_class = \<lparr>scope = Scope_INLINE_BLOT, blotName = Some ''text'', className = None,
       tagName = None, variant = TextV, defaultChild = None\<rparr>"

definition block_class :: blot_class where
  "block_class = \<lparr>scope = Scope_BLOCK_BLOT, blotName = Some ''block'', className = None,
       tagName = Some (TagName ''P''), variant = BlockV, defaultChild = None\<rparr>"




section \<open>Creating blots by name\<close>

text \<open>
  The static \<open>create\<close> of \<open>ShadowBlot\<close>, which every element class inherits, and of
  \<open>TextBlot\<close>:

  \<^verbatim>\<open>static create(t){if(null==this.tagName)throw new o("Blot definition missing tagName");
    let e;return Array.isArray(this.tagName)?("string"==typeof t&&(t=t.toUpperCase(),
      parseInt(t,10).toString()===t&&(t=parseInt(t,10))),
      e="number"==typeof t?document.createElement(this.tagName[t-1]):
        this.tagName.indexOf(t)>-1?document.createElement(t):
        document.createElement(this.tagName[0])):e=document.createElement(this.tagName),
    this.className&&e.classList.add(this.className),e}\<close>

  \<^verbatim>\<open>static create(t){return document.createTextNode(t)}\<close>

  \<open>createElement\<close> turns its argument into a string (\<open>undefined\<close> becomes
  \<open>"undefined"\<close>) and the element reports its tag in ASCII upper case; the tag names of
  the classes are taken to be names that \<open>createElement\<close> accepts. \<open>classList.add\<close>
  throws for a class name that holds white space. \<open>parseInt(t,10)\<close> reads a sign and
  decimal digits and gives the double nearest to their value; the test
  \<open>parseInt(t,10).toString()===t\<close> holds when \<open>t\<close> is what that number prints as, and
  then the number is the value (\<open>canonical_int\<close>).
\<close>

definition ascii_uppercase :: "string \<Rightarrow> string" where
  "ascii_uppercase s = map upper_char s"

definition digit_value :: "char \<Rightarrow> nat option" where
  "digit_value ch = map_of (zip ''0123456789'' [0 ..< 10]) ch"

definition digits_value :: "string \<Rightarrow> nat option" where
  "digits_value ds =
     foldl (\<lambda>acc ch. case (acc, digit_value ch) of (Some a, Some d) \<Rightarrow> Some (10 * a + d) | _ \<Rightarrow> None)
       (Some 0) ds"

definition canonical_int :: "string \<Rightarrow> int option" where
  "canonical_int s =
     (let neg = (s \<noteq> [] \<and> hd s = CHR ''-'');
          ds = (if neg then tl s else s)
      in case digits_value ds of
           None \<Rightarrow> None
         | Some n \<Rightarrow>
             (let v = (if neg then - int (to_double n) else int (to_double n))
              in if ds \<noteq> [] \<and> ToString (JNumber v) = s then Some v else None))"

definition element_for :: "blot_class \<Rightarrow> string \<Rightarrow> error + host" where
  "element_for c tg =
     (case className c of
        None \<Rightarrow> Inr (HostElement (ascii_uppercase tg) [])
      | Some cn \<Rightarrow>
          (if cn = [] then Inr (HostElement (ascii_uppercase tg) [])
           else
             (case classList_add [cn] [] of
                Inl err \<Rightarrow> Inl err
              | Inr attrs \<Rightarrow> Inr (HostElement (ascii_uppercase tg) attrs))))"

definition static_create :: "blot_class \<Rightarrow> jsval \<Rightarrow> error + host" where
  "static_create c t =
     (if variant c = TextV then Inr (HostText (ToString t))
      else
        (case tagName c of
           None \<Rightarrow> Inl MissingTagName
         | Some (TagName tg) \<Rightarrow> element_for c tg
         | Some (TagNames tgs) \<Rightarrow>
             (let t' = (case t of
                          JString s \<Rightarrow>
                            (case canonical_int (toUpperCase s) of
                               Some n \<Rightarrow> JNumber n
                             | None \<Rightarrow> JString (toUpperCase s))
                        | _ \<Rightarrow> t)
              in case t' of
                   JNumber n \<Rightarrow>
                     element_for c (if 1 \<le> n \<and> n \<le> int (length tgs) then tgs ! nat (n - 1) else ''undefined'')
                 | JString s \<Rightarrow>
                     element_for c (if s \<in> set tgs then s else (case tgs of [] \<Rightarrow> ''undefined'' | x # _ \<Rightarrow> x))
                 | _ \<Rightarrow> element_for c (case tgs of [] \<Rightarrow> ''undefined'' | x # _ \<Rightarrow> x))))"

text \<open>
  \<open>create(name, value)\<close> of the root, which is \<open>Registry.create\<close>: the class is looked
  up under mask \<open>ANY\<close>, its static \<open>create\<close> makes the host node and its constructor
  the blot. An attributor has no static \<open>create\<close>.
\<close>

definition create :: "registry \<Rightarrow> string \<Rightarrow> jsval \<Rightarrow> error + blot" where
  "create reg e s =
     (case query reg (SelString e) Scope_ANY of
        None \<Rightarrow> Inl UnableToCreate
      | Some (AttributorInstance a) \<Rightarrow> Inl TypeError
      | Some (BlotClass c) \<Rightarrow>
          (case static_create c s of Inl err \<Rightarrow> Inl err | Inr h \<Rightarrow> construct c h))"

text \<open>\<open>null == s\<close>\<close>

fun nullish :: "jsval \<Rightarrow> bool" where
  "nullish JNull = True"
| "nullish JUndefined = True"
| "nullish _ = False"

section \<open>insertAt\<close>

text \<open>
  The methods are written for a blot in its place: the result is the list of blots that
  stand, after the call, where the blot stood among its siblings (one blot when only the
  blot itself changed, none when it was removed, more when siblings were inserted next to
  it). A call of a child's own method (\<open>i.insertAt\<close>, \<open>t.deleteAt\<close>), which JavaScript
  dispatches on the child's class, is a call of the parameter \<open>child_insertAt\<close> or
  \<open>child_deleteAt\<close>.

  \<^verbatim>\<open>insertAt(t,e,s){const[i,r]=this.children.find(t);if(i)i.insertAt(r,e,s);else{
    const t=null==s?this.scroll.create("text",e):this.scroll.create(e,s);
    this.appendChild(t)}}\<close> (ParentBlot)
\<close>

definition replace_child :: "blot list \<Rightarrow> nat \<Rightarrow> blot list \<Rightarrow> blot list" where
  "replace_child cs i rs = take i cs @ rs @ drop (Suc i) cs"

fun ParentBlot_insertAt ::
  "(blot \<Rightarrow> int \<Rightarrow> string \<Rightarrow> jsval \<Rightarrow> error + blot list) \<Rightarrow> registry \<Rightarrow>
   blot \<Rightarrow> int \<Rightarrow> string \<Rightarrow> jsval \<Rightarrow> error + blot list" where
  "ParentBlot_insertAt child_insertAt reg (ParentBlot c h cs) t e s =
     (case LinkedList_find blot_length cs t False of
        (Some i, r) \<Rightarrow>
          (case child_insertAt (cs ! i) r e s of
             Inl err \<Rightarrow> Inl err
           | Inr rs \<Rightarrow> Inr [ParentBlot c h (replace_child cs i rs)])
      | (None, r) \<Rightarrow>
          (case (if nullish s then create reg ''text'' (JString e) else create reg e s) of
             Inl err \<Rightarrow> Inl err
           | Inr nb \<Rightarrow>
               (case appendChild (ParentBlot c h cs) nb of Inl err \<Rightarrow> Inl err | Inr p \<Rightarrow> Inr [p])))"
| "ParentBlot_insertAt child_insertAt reg b t e s = Inl TypeError"

text \<open>
  \<^verbatim>\<open>insertAt(t,e,s){if(null==s||null!=this.scroll.query(e,r.INLINE))super.insertAt(t,e,s);
    else{const i=this.split(t);if(null==i)
      throw new Error("Attempt to insertAt after block boundaries");
    {const t=this.scroll.create(e,s);i.parent.insertBefore(t,i)}}}\<close> (BlockBlot)

  \<open>attached\<close> says whether the block has a parent and \<open>has_next\<close> whether it has a next
  sibling. \<open>i.parent\<close> is the block's own parent in each case.
\<close>

fun BlockBlot_insertAt ::
  "(blot \<Rightarrow> int \<Rightarrow> string \<Rightarrow> jsval \<Rightarrow> error + blot list) \<Rightarrow> registry \<Rightarrow> bool \<Rightarrow> bool \<Rightarrow>
   blot \<Rightarrow> int \<Rightarrow> string \<Rightarrow> jsval \<Rightarrow> error + blot list" where
  "BlockBlot_insertAt child_insertAt reg attached has_next b t e s =
     (if nullish s \<or> query reg (SelString e) Scope_INLINE \<noteq> None
      then ParentBlot_insertAt child_insertAt reg b t e s
      else
        (case split reg attached b t False of
           Inl err \<Rightarrow> Inl err
         | Inr (b', ReturnsNext) \<Rightarrow>
             (if \<not> has_next then Inl InsertAfterBlockBoundaries
              else case create reg e s of Inl err \<Rightarrow> Inl err | Inr nb \<Rightarrow> Inr [b', nb])
         | Inr (b', ReturnsSelf) \<Rightarrow>
             (case create reg e s of
                Inl err \<Rightarrow> Inl err
              | Inr nb \<Rightarrow> if attached then Inr [nb, b'] else Inl TypeError)
         | Inr (b', ReturnsNew right) \<Rightarrow>
             (case create reg e s of
                Inl err \<Rightarrow> Inl err
              | Inr nb \<Rightarrow> if attached then Inr [b', nb, right] else Inl TypeError)))"

text \<open>
  "Creating the blot for the payload and appending it as the last child", the other side
  of the comparison: \<open>appendChild\<close> on the blot that \<open>create\<close> returns.
\<close>

fun append_created :: "registry \<Rightarrow> blot \<Rightarrow> string \<Rightarrow> jsval \<Rightarrow> error + blot list" where
  "append_created reg (ParentBlot c h cs) e s =
     (case (if nullish s then create reg ''text'' (JString e) else create reg e s) of
        Inl err \<Rightarrow> Inl err
      | Inr nb \<Rightarrow>
          (case appendChild (ParentBlot c h cs) nb of Inl err \<Rightarrow> Inl err | Inr p \<Rightarrow> Inr [p]))"
| "append_created reg b e s = Inl TypeError"

section \<open>deleteAt\<close>

text \<open>
  \<^verbatim>\<open>remove(){null!=this.domNode.parentNode&&
    this.domNode.parentNode.removeChild(this.domNode),this.detach()}\<close>:
  nothing stands in the blot's place afterwards.

  \<open>forEachAt\<close> for a callback that changes the entry it is called on, removes it or puts
  new entries next to it: the callback gives the blots that take the entry's place, and
  the walk is over the entries as they were before the call (the iterator has read
  \<open>a.next\<close>, and \<open>a.length()\<close> is taken, before the callback runs).
\<close>

definition remove :: "blot \<Rightarrow> blot list" where
  "remove b = []"

fun forEachAt_from ::
  "(blot \<Rightarrow> int \<Rightarrow> int \<Rightarrow> error + blot list) \<Rightarrow> blot list \<Rightarrow> int \<Rightarrow> int \<Rightarrow> int \<Rightarrow> error + blot list" where
  "forEachAt_from s [] n t e = Inr []"
| "forEachAt_from s (a # rest) n t e =
     (if n < t + e then
        (let i = blot_length a in
         case (if t > n then s a (t - n) (min e (n + i - t)) else s a 0 (min i (t + e - n))) of
           Inl err \<Rightarrow> Inl err
         | Inr rs \<Rightarrow>
             (case forEachAt_from s rest (n + i) t e of
                Inl err \<Rightarrow> Inl err
              | Inr rest' \<Rightarrow> Inr (rs @ rest')))
      else Inr (a # rest))"

definition forEachAt ::
  "blot list \<Rightarrow> int \<Rightarrow> int \<Rightarrow> (blot \<Rightarrow> int \<Rightarrow> int \<Rightarrow> error + blot list) \<Rightarrow> error + blot list" where
  "forEachAt cs t e s =
     (if e \<le> 0 then Inr cs
      else
        (case LinkedList_find blot_length cs t False of
           (None, r) \<Rightarrow> Inr cs
         | (Some i, r) \<Rightarrow>
             (case forEachAt_from s (drop i cs) (t - r) t e of
                Inl err \<Rightarrow> Inl err
              | Inr ys \<Rightarrow> Inr (take i cs @ ys))))"

text \<open>
  \<^verbatim>\<open>deleteAt(t,e){if(0===t&&e===this.length())return this.remove();
    this.children.forEachAt(t,e,(t,e,s)=>{t.deleteAt(e,s)})}\<close> (ParentBlot)
\<close>

fun ParentBlot_deleteAt ::
  "(blot \<Rightarrow> int \<Rightarrow> int \<Rightarrow> error + blot list) \<Rightarrow> blot \<Rightarrow> int \<Rightarrow> int \<Rightarrow> error + blot list" where
  "ParentBlot_deleteAt child_deleteAt (ParentBlot c h cs) t e =
     (if t = 0 \<and> e = blot_length (ParentBlot c h cs) then Inr (remove (ParentBlot c h cs))
      else
        (case forEachAt cs t e child_deleteAt of
           Inl err \<Rightarrow> Inl err
         | Inr cs' \<Rightarrow> Inr [ParentBlot c h cs']))"
| "ParentBlot_deleteAt child_deleteAt b t e = Inl TypeError"

text \<open>
  \<^verbatim>\<open>deleteAt(t,e){this.update(),0===t&&e===this.length()?
    this.children.forEach(t=>{t.remove()}):super.deleteAt(t,e)}\<close> (ScrollBlot)

  \<open>update\<close> folds the pending records of the host into the tree and runs \<open>optimize\<close>; it
  is a parameter that gives the root's children afterwards.
\<close>

fun ScrollBlot_deleteAt ::
  "(blot list \<Rightarrow> error + blot list) \<Rightarrow> (blot \<Rightarrow> int \<Rightarrow> int \<Rightarrow> error + blot list) \<Rightarrow>
   blot \<Rightarrow> int \<Rightarrow> int \<Rightarrow> error + blot list" where
  "ScrollBlot_deleteAt update child_deleteAt (ParentBlot c h cs) t e =
     (case update cs of
        Inl err \<Rightarrow> Inl err
      | Inr cs' \<Rightarrow>
          (if t = 0 \<and> e = blot_length (ParentBlot c h cs')
           then Inr [ParentBlot c h (concat (map remove cs'))]
           else ParentBlot_deleteAt child_deleteAt (ParentBlot c h cs') t e))"
| "ScrollBlot_deleteAt update child_deleteAt b t e = Inl TypeError"

text \<open>
  Example: a registry that also knows a block-level embed, and a root holding one
  paragraph.
\<close>

definition divider_class :: blot_class where
  "divider_class = \<lparr>scope = Scope_BLOCK_BLOT, blotName = Some ''divider'', className = None,
       tagName = Some (TagName ''HR''), variant = EmbedV, defaultChild = None\<rparr>"

definition scroll_class :: blot_class where
  "scroll_class = \<lparr>scope = Scope_BLOCK_BLOT, blotName = Some ''scroll'', className = None,
       tagName = Some (TagName ''DIV''), variant = ScrollV, defaultChild = Some ''block''\<rparr>"

definition divider_registry :: registry where
  "divider_registry = projr (register_all Registry_new
      [BlotClass text_class, BlotClass block_class, BlotClass divider_class])"

definition example_paragraph :: blot where
  "example_paragraph = ParentBlot block_class (HostElement ''P'' []) [TextBlot text_class ''ab'']"

definition example_root :: blot where
  "example_root = ParentBlot scroll_class (HostElement ''DIV'' []) [example_paragraph]"

text \<open>
  The methods of the children in the examples, which are text blots. \<open>TextBlot\<close> inherits
  from \<open>ShadowBlot\<close>:

  \<^verbatim>\<open>insertAt(t,e,s){const i=null==s?this.scroll.create("text",e):this.scroll.create(e,s),
    r=this.split(t);this.parent.insertBefore(i,r||void 0)}\<close> (ShadowBlot)

  The new blot is made first; it is put in front of the blot that \<open>split\<close> returns, and
  at the end of the parent, which is then directly after the blot, when \<open>split\<close> returns
  no next sibling. \<open>this.parent\<close> is \<open>null\<close> for a blot that is not attached.

  \<^verbatim>\<open>insertAt(t,e,s){null==s?(this.text=this.text.slice(0,t)+e+this.text.slice(t),
    this.domNode.data=this.text):super.insertAt(t,e,s)}\<close> (TextBlot)
  \<^verbatim>\<open>deleteAt(t,e){this.domNode.data=this.text=this.text.slice(0,t)+this.text.slice(t+e)}\<close>

  \<open>slice\<close> counts a negative index from the end and clips it to the string.
\<close>

definition ShadowBlot_insertAt ::
  "registry \<Rightarrow> bool \<Rightarrow> blot \<Rightarrow> int \<Rightarrow> string \<Rightarrow> jsval \<Rightarrow> error + blot list" where
  "ShadowBlot_insertAt reg attached b t e s =
     (case (if nullish s then create reg ''text'' (JString e) else create reg e s) of
        Inl err \<Rightarrow> Inl err
      | Inr i \<Rightarrow>
          (case split reg attached b t False of
             Inl err \<Rightarrow> Inl err
           | Inr (b', r) \<Rightarrow>
               (if \<not> attached then Inl TypeError
                else
                  (case r of
                     ReturnsSelf \<Rightarrow> Inr [i, b']
                   | ReturnsNext \<Rightarrow> Inr [b', i]
                   | ReturnsNew nb \<Rightarrow> Inr [b', i, nb]))))"

definition slice_index :: "string \<Rightarrow> int \<Rightarrow> nat" where
  "slice_index s i = (if i < 0 then nat (max 0 (int (length s) + i)) else min (nat i) (length s))"

definition TextBlot_insertAt ::
  "registry \<Rightarrow> bool \<Rightarrow> blot \<Rightarrow> int \<Rightarrow> string \<Rightarrow> jsval \<Rightarrow> error + blot list" where
  "TextBlot_insertAt reg attached b t e v =
     (if nullish v then
        (case b of
           TextBlot c s \<Rightarrow> Inr [TextBlot c (take (slice_index s t) s @ e @ drop (slice_index s t) s)]
         | _ \<Rightarrow> Inl TypeError)
      else ShadowBlot_insertAt reg attached b t e v)"

fun TextBlot_deleteAt :: "blot \<Rightarrow> int \<Rightarrow> int \<Rightarrow> error + blot list" where
  "TextBlot_deleteAt (TextBlot c s) t e =
     Inr [TextBlot c (take (slice_index s t) s @ drop (slice_index s (t + e)) s)]"
| "TextBlot_deleteAt b t e = Inl TypeError"

section \<open>Host nodes and adaptation of a host tree\<close>

text \<open>
  A node of the host tree: an element with its tag, attributes and child nodes, a text
  node with its data, or a node of another kind (a comment, say).
\<close>

datatype node =
    Element string attributes "node list"
  | Text string
  | OtherNode

fun childNodes :: "node \<Rightarrow> node list" where
  "childNodes (Element tg attrs kids) = kids"
| "childNodes (Text d) = []"
| "childNodes OtherNode = []"

text \<open>What \<open>query\<close> sees of a node.\<close>

fun node_selector :: "node \<Rightarrow> selector" where
  "node_selector (Element tg attrs kids) = SelElement (getAttribute ''class'' attrs) tg"
| "node_selector (Text d) = SelTextNode"
| "node_selector OtherNode = SelOther"

text \<open>
  \<open>create(7)\<close>, creation for a scope probe: \<open>query\<close> resolves the number to the class
  registered as \<open>block\<close> or \<open>inline\<close>, the static \<open>create\<close> is called without a value
  and the constructor makes the blot on the new, empty host node.
\<close>

definition create_scope :: "registry \<Rightarrow> scope \<Rightarrow> error + blot" where
  "create_scope reg n =
     (case query reg (SelNumber n) Scope_ANY of
        None \<Rightarrow> Inl UnableToCreate
      | Some (AttributorInstance a) \<Rightarrow> Inl TypeError
      | Some (BlotClass c) \<Rightarrow>
          (case static_create c JUndefined of Inl err \<Rightarrow> Inl err | Inr h \<Rightarrow> construct c h))"

text \<open>
  The host node of a wrapper after \<^verbatim>\<open>Array.from(t.childNodes).forEach(t=>{
  s.domNode.appendChild(t)})\<close>: the wrapper's new element with the given nodes as its
  children, in their order. A text node takes no children.
\<close>

definition adopt :: "blot \<Rightarrow> node list \<Rightarrow> error + node" where
  "adopt b kids =
     (case host_of b of
        HostElement tg attrs \<Rightarrow> Inr (Element tg attrs kids)
      | HostText d \<Rightarrow> (if kids = [] then Inr (Text d) else Inl HierarchyRequestError))"

text \<open>
  \<^verbatim>\<open>function d(t,e){let s=e.find(t);if(null==s)try{s=e.create(t)}catch(i){
    s=e.create(r.INLINE),Array.from(t.childNodes).forEach(t=>{s.domNode.appendChild(t)}),
    t.parentNode&&t.parentNode.replaceChild(s.domNode,t),s.attach()}return s}\<close>

  \<^verbatim>\<open>build(){this.children=new n,Array.from(this.domNode.childNodes)
    .filter(t=>t!==this.uiNode).reverse().forEach(t=>{try{const e=d(t,this.scroll);
      this.insertBefore(e,this.children.head||void 0)}
      catch(t){if(t instanceof o)return;throw t}})}\<close>

  \<open>known\<close> is the identity table (\<open>e.find\<close>). \<open>makeAttachedBlot\<close> is function \<open>d\<close>; it
  gives the blot and the host node that stands in the place of \<open>t\<close> afterwards.
  \<open>create_node\<close> is \<open>create\<close> for a host node: the constructor of a parent class runs
  \<open>build\<close> over the child nodes. \<open>build\<close> takes the child nodes last to first and puts each
  blot in front of the ones made so far; it gives the child blots and the child nodes
  afterwards. A node whose \<open>d\<close> throws a \<open>ParchmentError\<close> is passed over: it stays in the
  host tree and gets no blot.
\<close>

fun makeAttachedBlot :: "registry \<Rightarrow> (node \<Rightarrow> blot option) \<Rightarrow> node \<Rightarrow> error + (blot \<times> node)"
  and create_node :: "registry \<Rightarrow> (node \<Rightarrow> blot option) \<Rightarrow> node \<Rightarrow> error + (blot \<times> node)"
  and build :: "registry \<Rightarrow> (node \<Rightarrow> blot option) \<Rightarrow> node list \<Rightarrow> error + (blot list \<times> node list)" where
  "makeAttachedBlot reg known t =
     (case known t of
        Some s \<Rightarrow> Inr (s, t)
      | None \<Rightarrow>
          (case create_node reg known t of
             Inr res \<Rightarrow> Inr res
           | Inl i \<Rightarrow>
               (case create_scope reg Scope_INLINE of
                  Inl err \<Rightarrow> Inl err
                | Inr s \<Rightarrow>
                    (case adopt s (childNodes t) of
                       Inl err \<Rightarrow> Inl err
                     | Inr n \<Rightarrow> Inr (s, n)))))"
| "create_node reg known (Element tg attrs kids) =
     (case query reg (node_selector (Element tg attrs kids)) Scope_ANY of
        None \<Rightarrow> Inl UnableToCreate
      | Some (AttributorInstance a) \<Rightarrow> Inl TypeError
      | Some (BlotClass c) \<Rightarrow>
          (if variant c = TextV then Inl TypeError
           else if is_parent_variant (variant c) then
             (case build reg known kids of
                Inl err \<Rightarrow> Inl err
              | Inr (bs, ns) \<Rightarrow> Inr (ParentBlot c (HostElement tg attrs) bs, Element tg attrs ns))
           else Inr (LeafBlot c (HostElement tg attrs), Element tg attrs kids)))"
| "create_node reg known (Text d) =
     (case query reg SelTextNode Scope_ANY of
        None \<Rightarrow> Inl UnableToCreate
      | Some (AttributorInstance a) \<Rightarrow> Inl TypeError
      | Some (BlotClass c) \<Rightarrow>
          (case construct c (HostText d) of Inl err \<Rightarrow> Inl err | Inr b \<Rightarrow> Inr (b, Text d)))"
| "create_node reg known OtherNode = Inl UnableToCreate"
| "build reg known [] = Inr ([], [])"
| "build reg known (t # ts) =
     (case build reg known ts of
        Inl err \<Rightarrow> Inl err
      | Inr (bs, ns) \<Rightarrow>
          (case makeAttachedBlot reg known t of
             Inl err \<Rightarrow> if is_ParchmentError err then Inr (bs, t # ns) else Inl err
           | Inr (b, n) \<Rightarrow> Inr (b # bs, n # ns)))"

text \<open>Example: the standard inline class, and a host element of an unknown tag.\<close>

definition inline_class :: blot_class where
  "inline_class = \<lparr>scope = Scope_INLINE_BLOT, blotName = Some ''inline'', className = None,
       tagName = Some (TagName ''SPAN''), variant = InlineV, defaultChild = None\<rparr>"

definition inline_registry :: registry where
  "inline_registry = projr (register_all Registry_new
      [BlotClass text_class, BlotClass block_class, BlotClass inline_class])"

definition font_node :: node where
  "font_node = Element ''FONT'' [(''color'', ''red'')] [Text ''ab'', Element ''B'' [] [Text ''c'']]"

section \<open>The image grid embed\<close>

text \<open>
  The class \<open>ImageGrid\<close> (an embed of the editor built on the blots above) and the value
  of a leaf blot:

  \<^verbatim>\<open>static value(t){return!0}\<close> and
  \<^verbatim>\<open>value(){return{[this.statics.blotName]:this.statics.value(this.domNode)||!0}}\<close> (LeafBlot)

  The statements of \<open>create\<close> run in their order and the first one that throws ends the
  call: \<open>then_do r f\<close> goes on with \<open>f\<close> when \<open>r\<close> is a result, and \<open>collect\<close> runs
  a list of steps from left to right.
\<close>

definition then_do :: "error + 'a \<Rightarrow> ('a \<Rightarrow> error + 'b) \<Rightarrow> error + 'b" where
  "then_do r f = (case r of Inl err \<Rightarrow> Inl err | Inr x \<Rightarrow> f x)"














text \<open>
  A comment identifier that \<open>classList.add\<close> accepts, and data whose comment identifiers
  are all of that kind.
\<close>

definition valid_token :: "string \<Rightarrow> bool" where
  "valid_token c = (c \<noteq> [] \<and> \<not> list_ex is_ascii_whitespace c)"









section \<open>Properties of the ordered container\<close>

lemma find_loop_Some:
  "find_loop len xs k t e = (Some m, r) \<Longrightarrow>
     k \<le> m \<and> m - k < length xs \<and> r = remainder_at len xs t (m - k) \<and>
     stops_at len xs t e (m - k) \<and> (\<forall>j < m - k. \<not> stops_at len xs t e j)"
proof (induction xs arbitrary: k t)
  case Nil
  then show ?case by simp
next
  case (Cons i rest)
  show ?case
  proof (cases "t < len i \<or> (e \<and> t = len i \<and> (case rest of [] \<Rightarrow> True | nx # _ \<Rightarrow> 0 \<noteq> len nx))")
    case True
    with Cons.prems have "m = k" "r = t" by (simp_all add: Let_def)
    moreover from True have "stops_at len (i # rest) t e 0"
      by (auto simp: stops_at_def remainder_at_def split: list.splits)
    ultimately show ?thesis by (simp add: remainder_at_def)
  next
    case False
    with Cons.prems have rec: "find_loop len rest (Suc k) (t - len i) e = (Some m, r)"
      by (simp add: Let_def)
    from Cons.IH [OF rec] have ih:
      "Suc k \<le> m" "m - Suc k < length rest" "r = remainder_at len rest (t - len i) (m - Suc k)"
      "stops_at len rest (t - len i) e (m - Suc k)"
      "\<forall>j < m - Suc k. \<not> stops_at len rest (t - len i) e j"
      by simp_all
    have shift_rem: "remainder_at len (i # rest) t (Suc j) = remainder_at len rest (t - len i) j" for j
      by (simp add: remainder_at_def)
    have shift: "stops_at len (i # rest) t e (Suc j) = stops_at len rest (t - len i) e j" for j
      by (simp add: stops_at_def shift_rem)
    from False have no0: "\<not> stops_at len (i # rest) t e 0"
      by (cases rest) (auto simp: stops_at_def remainder_at_def)
    from ih(1) have mk: "m - k = Suc (m - Suc k)" by simp
    have "\<forall>j < m - k. \<not> stops_at len (i # rest) t e j"
    proof (intro allI impI)
      fix j assume "j < m - k"
      then show "\<not> stops_at len (i # rest) t e j"
        using no0 ih(5) shift mk by (cases j) auto
    qed
    with ih mk shift shift_rem show ?thesis by simp
  qed
qed

lemma find_loop_None:
  "find_loop len xs k t e = (None, r) \<Longrightarrow> r = 0 \<and> (\<forall>j < length xs. \<not> stops_at len xs t e j)"
proof (induction xs arbitrary: k t)
  case Nil
  then show ?case by simp
next
  case (Cons i rest)
  show ?case
  proof (cases "t < len i \<or> (e \<and> t = len i \<and> (case rest of [] \<Rightarrow> True | nx # _ \<Rightarrow> 0 \<noteq> len nx))")
    case True
    with Cons.prems show ?thesis by (simp add: Let_def)
  next
    case False
    with Cons.prems have rec: "find_loop len rest (Suc k) (t - len i) e = (None, r)"
      by (simp add: Let_def)
    from Cons.IH [OF rec] have ih: "r = 0" "\<forall>j < length rest. \<not> stops_at len rest (t - len i) e j"
      by simp_all
    have shift: "stops_at len (i # rest) t e (Suc j) = stops_at len rest (t - len i) e j" for j
      by (simp add: stops_at_def remainder_at_def algebra_simps)
    from False have no0: "\<not> stops_at len (i # rest) t e 0"
      by (cases rest) (auto simp: stops_at_def remainder_at_def)
    have "\<forall>j < length (i # rest). \<not> stops_at len (i # rest) t e j"
    proof (intro allI impI)
      fix j assume "j < length (i # rest)"
      then show "\<not> stops_at len (i # rest) t e j"
        using no0 ih(2) shift by (cases j) auto
    qed
    with ih(1) show ?thesis by simp
  qed
qed

text \<open>
  C1 (the claim as the specification states it fails). The container holds two entries of
  lengths 2 and 3 and the offset is 2 with \<open>preferEnd\<close> set: the remainder equals the
  first entry's length and the next entry is not empty, so the specified search goes on to
  the second entry; the code returns the first entry with remainder 2.
\<close>

theorem find_preferEnd_counterexample:
  "LinkedList_find id [2, 3] 2 True = (Some 0, 2) \<and>
   find_loop_as_specified id [2, 3 :: int] 0 2 True = (Some 1, 0) \<and>
   LinkedList_find id [2, 3] 2 True \<noteq> find_loop_as_specified id [2, 3 :: int] 0 2 True"
  by (simp add: LinkedList_find_def)

text \<open>
  C1 (amended). \<open>find(n, preferEnd)\<close> walks from the head, subtracting each entry's length,
  and returns the first entry at which the remainder is less than the entry's length or,
  when \<open>preferEnd\<close> is set, equal to it while the next entry is absent or not empty; the
  remainder is returned with it. So at a boundary with \<open>preferEnd\<close> the search stays on the
  entry that ends there and continues only when the next entry has zero length. When no
  entry qualifies the result is no entry and offset 0.
\<close>

theorem find_characterisation:
  "case LinkedList_find len xs t e of
     (Some m, r) \<Rightarrow>
        m < length xs \<and> r = remainder_at len xs t m \<and> stops_at len xs t e m \<and>
        (\<forall>j < m. \<not> stops_at len xs t e j)
   | (None, r) \<Rightarrow> r = 0 \<and> (\<forall>j < length xs. \<not> stops_at len xs t e j)"
proof (cases "LinkedList_find len xs t e")
  case (Pair a r)
  show ?thesis
  proof (cases a)
    case None
    with Pair find_loop_None [of len xs 0 t e r] show ?thesis
      by (simp add: LinkedList_find_def)
  next
    case (Some m)
    with Pair find_loop_Some [of len xs 0 t e m r] show ?thesis
      by (simp add: LinkedList_find_def)
  qed
qed

theorem find_characterisation_witness:
  "LinkedList_find id [2, 0, 3 :: int] 2 True = (Some 1, 0) \<and>
   stops_at id [2, 0, 3 :: int] 2 True 1 \<and> \<not> stops_at id [2, 0, 3 :: int] 2 True 0"
proof -
  have v: "LinkedList_find id [2, 0, 3 :: int] 2 True = (Some 1, 0)"
    by (simp add: LinkedList_find_def)
  from find_characterisation [where len = id and xs = "[2, 0, 3 :: int]" and t = 2 and e = True]
  show ?thesis
    unfolding v by simp
qed

section \<open>Properties of the registry and of attributors\<close>

lemma def_scope_set_tagName [simp]: "def_scope (set_tagName d ts) = def_scope d"
  by (cases d) simp_all

lemma def_className_set_tagName [simp]: "def_className (set_tagName d ts) = def_className d"
  by (cases d) simp_all

lemma def_keyName_set_tagName [simp]: "def_keyName (set_tagName d ts) = def_keyName d"
  by (cases d) simp_all

lemma def_tagName_set_tagName:
  "def_tagName d = Some ts0 \<Longrightarrow> def_tagName (set_tagName d ts) = Some ts"
  by (cases d) simp_all

lemma foldl_index_tag_keep:
  "tgs T = Some v \<Longrightarrow> T \<notin> set ts \<or> def_className e \<noteq> None \<Longrightarrow>
   foldl (index_tag e) tgs ts T = Some v"
proof (induction ts arbitrary: tgs)
  case Nil
  then show ?case by simp
next
  case (Cons a ts)
  from Cons.prems have "index_tag e tgs a T = Some v"
    by (auto simp: index_tag_def obj_get_def)
  moreover from Cons.prems(2) have "T \<notin> set ts \<or> def_className e \<noteq> None" by auto
  ultimately show ?case using Cons.IH by simp
qed

lemma foldl_index_tag_set:
  "def_className e = None \<Longrightarrow> T \<in> set ts \<Longrightarrow> foldl (index_tag e) tgs ts T = Some e"
proof (induction ts arbitrary: tgs)
  case Nil
  then show ?case by simp
next
  case (Cons t ts)
  show ?case
  proof (cases "T \<in> set ts")
    case True
    with Cons show ?thesis by simp
  next
    case False
    with Cons.prems have "T = t" by simp
    then have "index_tag e tgs t T = Some e"
      using Cons.prems(1) by (simp add: index_tag_def)
    then show ?thesis
      using False foldl_index_tag_keep [of "index_tag e tgs t" T e ts e] by simp
  qed
qed

lemma register_tags_keep:
  assumes "register reg d = Inr (reg', x)" and "tags reg T = Some v" and "\<not> displaces T d"
  shows "tags reg' T = Some v"
proof (cases "def_keyName d")
  case (Some k)
  with assms show ?thesis by (auto simp: register_def split: if_splits)
next
  case None
  show ?thesis
  proof (cases "def_tagName d")
    case None2: None
    with None assms show ?thesis by (auto simp: register_def Let_def split: if_splits option.splits)
  next
    case (Some ts)
    from assms(3) None Some have side: "T \<notin> set (tag_list (upper_tags ts)) \<or> def_className d \<noteq> None"
      by (auto simp: displaces_def)
    have tn: "def_tagName (set_tagName d (upper_tags ts)) = Some (upper_tags ts)"
      using Some by (rule def_tagName_set_tagName)
    from assms(1) None Some tn have
      "tags reg' = foldl (index_tag (set_tagName d (upper_tags ts))) (tags reg) (tag_list (upper_tags ts))"
      by (auto simp: register_def Let_def split: if_splits)
    with side assms(2) show ?thesis
      using foldl_index_tag_keep [of "tags reg" T v "tag_list (upper_tags ts)" "set_tagName d (upper_tags ts)"]
      by auto
  qed
qed

lemma register_all_tags_keep:
  "register_all reg ds = Inr reg' \<Longrightarrow> tags reg T = Some v \<Longrightarrow> \<forall>d \<in> set ds. \<not> displaces T d \<Longrightarrow>
   tags reg' T = Some v"
proof (induction ds arbitrary: reg)
  case Nil
  then show ?case by simp
next
  case (Cons d ds)
  from Cons.prems(1) obtain mid x where r: "register reg d = Inr (mid, x)" and rest: "register_all mid ds = Inr reg'"
    by (auto split: sum.splits)
  from register_tags_keep [OF r Cons.prems(2)] Cons.prems(3) have "tags mid T = Some v" by simp
  from Cons.IH [OF rest this] Cons.prems(3) show ?case by simp
qed

lemma register_tags_set:
  assumes "register reg d = Inr (reg', x)" and "def_keyName d = None" and "def_className d = None"
    and "def_tagName d = Some ts" and "T \<in> set (tag_list (upper_tags ts))"
  shows "tags reg' T = Some (set_tagName d (upper_tags ts))"
proof -
  have tn: "def_tagName (set_tagName d (upper_tags ts)) = Some (upper_tags ts)"
    using assms(4) by (rule def_tagName_set_tagName)
  from assms(1,2,4) tn have
    "tags reg' = foldl (index_tag (set_tagName d (upper_tags ts))) (tags reg) (tag_list (upper_tags ts))"
    by (auto simp: register_def Let_def split: if_splits)
  then show ?thesis
    using foldl_index_tag_set [of "set_tagName d (upper_tags ts)" T "tag_list (upper_tags ts)" "tags reg"] assms(3,5)
    by simp
qed

lemma register_all_append:
  "register_all reg (xs @ ys) = Inr r \<Longrightarrow> \<exists>mid. register_all reg xs = Inr mid \<and> register_all mid ys = Inr r"
  by (induction xs arbitrary: reg) (auto split: sum.splits)

lemma query_class_constructor:
  "classes reg ''constructor'' = None \<Longrightarrow> query reg (SelElement (Some ''constructor'') tg) m = None"
  by (simp add: query_def resolve_def split_space_def is_space_def obj_get_def object_prototype_names_def)

text \<open>
  C2 (amended). When several definitions are registered in sequence, the default of a tag
  is the class-less blot definition registered last under that tag: once it is registered,
  later registrations that carry a class marker, declare other tags or are attributors
  never displace it, and a query for a host element with that tag resolves to it when no
  class token of the element is found in the class index, neither as a registered class
  marker nor as a name that every object inherits (such as \<open>constructor\<close>), and when
  its scope meets the probe mask in both the TYPE and the LEVEL bits. This is stated for
  ASCII tag names and for a class index whose prototype no registration under the class
  marker \<open>__proto__\<close> has replaced.
\<close>

theorem tag_default_is_last_classless:
  assumes "register_all reg (pre @ d # post) = Inr reg'"
    and "def_keyName d = None" and "def_className d = None"
    and "def_tagName d = Some ts" and "T \<in> set (tag_list (upper_tags ts))"
    and "\<forall>d' \<in> set post. \<not> displaces T d'"
    and "\<forall>d' \<in> set (d # post). ascii_tags d'"
    and "first_hit (classes reg') (split_space (case cls of None \<Rightarrow> [] | Some c \<Rightarrow> c)) = NoMember"
    and "classes reg' ''__proto__'' = None"
    and "(m AND Scope_LEVEL) AND def_scope d \<noteq> 0" and "(m AND Scope_TYPE) AND def_scope d \<noteq> 0"
  shows "tags reg' T = Some (set_tagName d (upper_tags ts)) \<and>
         query reg' (SelElement cls T) m = Some (set_tagName d (upper_tags ts))"
proof -
  from register_all_append [OF assms(1)] obtain mid where
    "register_all reg pre = Inr mid" and tl: "register_all mid (d # post) = Inr reg'" by blast
  from tl obtain mid2 x where r: "register mid d = Inr (mid2, x)" and rest: "register_all mid2 post = Inr reg'"
    by (auto split: sum.splits)
  from register_tags_set [OF r assms(2,3,4,5)] have "tags mid2 T = Some (set_tagName d (upper_tags ts))" .
  from register_all_tags_keep [OF rest this assms(6)] have t: "tags reg' T = Some (set_tagName d (upper_tags ts))" .
  with assms(8,10,11) show ?thesis
    by (simp add: query_def resolve_def obj_get_def)
qed

lemma toUpperCase_p: "toUpperCase ''p'' = ''P''"
  by (simp add: toUpperCase_def upper_char_def)

text \<open>
  C2 (the claim as stated fails). Two class-less definitions are registered under tag
  \<open>p\<close>, first \<open>paragraph\<close>, then \<open>lead\<close>. A host element \<open>P\<close> without a class then
  resolves to \<open>lead\<close>, the later one, not to the first class-less definition.
\<close>

theorem tag_default_counterexample:
  "case register_all Registry_new [BlotClass paragraph_class, BlotClass lead_class] of
     Inl _ \<Rightarrow> False
   | Inr reg \<Rightarrow>
       query reg (SelElement None ''P'') Scope_ANY = Some (BlotClass (lead_class\<lparr>tagName := Some (TagName ''P'')\<rparr>)) \<and>
       query reg (SelElement None ''P'') Scope_ANY \<noteq> Some (BlotClass (paragraph_class\<lparr>tagName := Some (TagName ''P'')\<rparr>))"
  by (simp add: register_def Registry_new_def paragraph_class_def lead_class_def types_key_def Let_def index_tag_def toUpperCase_p
      query_def resolve_def split_space_def obj_get_def object_prototype_names_def Scope_defs)

lemma type_bits: "((x :: 32 word) AND 12 OR 1) AND 3 = 1"
  by (simp add: bit.conj_disj_distrib2 word_bw_assocs)

lemma type_bits2: "((x :: 32 word) AND 12 OR 1) AND 2 = 0"
  by (simp add: bit.conj_disj_distrib2 word_bw_assocs)

text \<open>
  C10. The scope of a constructed attributor is the LEVEL bits of the scope option joined
  with the attribute TYPE constant, or \<open>ATTRIBUTE\<close> when no scope is given; it always
  carries the attribute TYPE bit and never the blot TYPE bit, so no query whose mask has
  the TYPE bits of \<open>BLOT\<close> answers with an attributor.
\<close>

theorem attributor_scope_type_bits:
  "scope (Attributor_new t e s) =
     (case opt_scope s of
        Some sc \<Rightarrow> (sc AND Scope_LEVEL) OR (Scope_TYPE AND Scope_ATTRIBUTE)
      | None \<Rightarrow> Scope_ATTRIBUTE) \<and>
   scope (Attributor_new t e s) AND Scope_TYPE = Scope_ATTRIBUTE AND Scope_TYPE \<and>
   scope (Attributor_new t e s) AND (Scope_BLOT AND Scope_TYPE) = 0 \<and>
   (\<forall>reg sel mask. mask AND Scope_TYPE = Scope_BLOT AND Scope_TYPE \<longrightarrow>
      query reg sel mask \<noteq> Some (AttributorInstance (Attributor_new t e s)))"
proof -
  let ?a = "Attributor_new t e s"
  have s1: "scope ?a AND Scope_TYPE = Scope_ATTRIBUTE AND Scope_TYPE"
    by (cases "opt_scope s") (simp_all add: Attributor_new_def Scope_defs type_bits)
  have s2: "scope ?a AND (Scope_BLOT AND Scope_TYPE) = 0"
    by (cases "opt_scope s") (simp_all add: Attributor_new_def Scope_defs type_bits2)
  have "query reg sel mask \<noteq> Some (AttributorInstance ?a)"
    if m: "mask AND Scope_TYPE = Scope_BLOT AND Scope_TYPE" for reg sel mask
  proof
    assume q: "query reg sel mask = Some (AttributorInstance ?a)"
    then have "(mask AND Scope_TYPE) AND scope ?a \<noteq> 0"
      by (auto simp: query_def split: member.splits if_splits)
    moreover have "(mask AND Scope_TYPE) AND scope ?a = scope ?a AND (Scope_BLOT AND Scope_TYPE)"
      unfolding m by (rule and.commute)
    ultimately show False using s2 by simp
  qed
  with s1 s2 show ?thesis by (simp add: Attributor_new_def)
qed

text \<open>
  An attributor built with the option \<open>scope: INLINE_BLOT\<close> gets scope
  \<open>INLINE_ATTRIBUTE\<close>; once registered it is found under mask \<open>ANY\<close> and not under
  \<open>BLOT\<close>.
\<close>

theorem attributor_scope_type_bits_witness:
  "Scope_BLOT AND Scope_TYPE = Scope_BLOT AND Scope_TYPE \<and>
   scope (Attributor_new ''color'' ''data-color'' color_opts) = Scope_INLINE_ATTRIBUTE \<and>
   (case register Registry_new (AttributorInstance (Attributor_new ''color'' ''data-color'' color_opts)) of
      Inl _ \<Rightarrow> False
    | Inr (reg, _) \<Rightarrow>
        query reg (SelString ''color'') Scope_ANY = Some (AttributorInstance (Attributor_new ''color'' ''data-color'' color_opts)) \<and>
        query reg (SelString ''color'') Scope_BLOT \<noteq> Some (AttributorInstance (Attributor_new ''color'' ''data-color'' color_opts)))"
proof -
  have a: "scope (Attributor_new ''color'' ''data-color'' color_opts) = Scope_INLINE_ATTRIBUTE"
    by (simp add: Attributor_new_def color_opts_def Scope_defs)
  obtain reg where r: "register Registry_new (AttributorInstance (Attributor_new ''color'' ''data-color'' color_opts))
      = Inr (reg, AttributorInstance (Attributor_new ''color'' ''data-color'' color_opts))"
    by (simp add: register_def)
  have any: "query reg (SelString ''color'') Scope_ANY = Some (AttributorInstance (Attributor_new ''color'' ''data-color'' color_opts))"
    using r by (auto simp: register_def Registry_new_def types_key_def query_def resolve_def obj_get_def Attributor_new_def color_opts_def Scope_defs)
  from attributor_scope_type_bits [of "''color''" "''data-color''" color_opts]
  have "query reg (SelString ''color'') Scope_BLOT \<noteq> Some (AttributorInstance (Attributor_new ''color'' ''data-color'' color_opts))"
    by simp
  with a r any show ?thesis by simp
qed

text \<open>
  C3 (the claim as stated fails). With whitelist \<open>serif, ab\<close> the value \<open>a'b\<close> has no
  surrounding quote character, so the comparison the specification describes rejects it;
  the code removes the quote inside the value, accepts it and writes the attribute.
\<close>

theorem canAdd_quotes_counterexample:
  "canAdd font_attr (JString [CHR ''a'', CHR 0x27, CHR ''b'']) \<and>
   \<not> canAdd_as_specified font_attr (JString [CHR ''a'', CHR 0x27, CHR ''b'']) \<and>
   Attributor_add font_attr [] (JString [CHR ''a'', CHR 0x27, CHR ''b''])
     = (True, [(''data-font'', [CHR ''a'', CHR 0x27, CHR ''b''])])"
  by (simp add: canAdd_def canAdd_as_specified_def font_attr_def Attributor_new_def remove_quotes_def
      strip_surrounding_quotes_def is_quote_def Attributor_add_def setAttribute_def
      ascii_lowercase_def lower_char_def)

text \<open>
  C3 (amended). For an attributor with a declared whitelist: \<open>add(node, value)\<close> returns
  false and leaves the node as it was unless \<open>canAdd\<close> passes (and then writes the value
  under the key and returns true); \<open>canAdd\<close> compares a string value with every single
  and double quote character removed, wherever it stands, against the whitelist; and
  \<open>value(node)\<close> returns the attribute's value when that value passes \<open>canAdd\<close>, and
  the empty string otherwise.
\<close>

theorem attributor_whitelist_contract:
  assumes "whitelist a = Some wl"
  shows "(\<not> canAdd a v \<longrightarrow> Attributor_add a n v = (False, n)) \<and>
         (canAdd a v \<longrightarrow> Attributor_add a n v = (True, setAttribute (keyName a) (ToString v) n)) \<and>
         canAdd a (JString s) = (JString (remove_quotes s) \<in> set wl) \<and>
         Attributor_value a n =
           (case getAttribute (keyName a) n of
              None \<Rightarrow> []
            | Some x \<Rightarrow> if canAdd a (JString x) then x else [])"
  using assms by (auto simp: Attributor_add_def canAdd_def Attributor_value_def split: option.splits)

theorem attributor_whitelist_contract_witness:
  "whitelist font_attr = Some [JString ''serif'', JString ''ab''] \<and>
   \<not> canAdd font_attr (JString ''mono'') \<and>
   Attributor_add font_attr [] (JString ''mono'') = (False, []) \<and>
   Attributor_value font_attr [(''data-font'', ''mono'')] = []"
proof -
  have w: "whitelist font_attr = Some [JString ''serif'', JString ''ab'']"
    by (simp add: font_attr_def Attributor_new_def)
  have k: "keyName font_attr = ''data-font''"
    by (simp add: font_attr_def Attributor_new_def)
  have c: "\<not> canAdd font_attr (JString ''mono'')"
    by (simp add: canAdd_def w remove_quotes_def)
  from attributor_whitelist_contract [OF w, of "JString ''mono''" "[]" "''mono''"] c
  have "Attributor_add font_attr [] (JString ''mono'') = (False, [])" by simp
  moreover from attributor_whitelist_contract [OF w, of "JString ''mono''" "[(''data-font'', ''mono'')]" "''mono''"] c
  have "Attributor_value font_attr [(''data-font'', ''mono'')] = []"
    by (simp add: k getAttribute_def ascii_lowercase_def lower_char_def)
  ultimately show ?thesis using w c by simp
qed

theorem tag_default_is_last_classless_witness:
  "register_all Registry_new ([] @ BlotClass paragraph_class # [BlotClass callout_class]) \<noteq> Inl InvalidDefinition \<and>
   def_className (BlotClass paragraph_class) = None \<and> \<not> displaces ''P'' (BlotClass callout_class) \<and>
   ascii_tags (BlotClass paragraph_class) \<and> ascii_tags (BlotClass callout_class) \<and>
   query (projr (register_all Registry_new ([] @ BlotClass paragraph_class # [BlotClass callout_class])))
     (SelElement (Some ''intro wide'') ''P'') Scope_ANY
     = Some (BlotClass (paragraph_class\<lparr>tagName := Some (TagName ''P'')\<rparr>))"
proof -
  let ?ds = "[] @ BlotClass paragraph_class # [BlotClass callout_class]"
  have up: "toUpperCase ''p'' = ''P''"
    by (simp add: toUpperCase_def upper_char_def)
  have ok: "\<not> isl (register_all Registry_new ?ds)"
    by (simp add: register_def Let_def paragraph_class_def callout_class_def)
  then have r: "register_all Registry_new ?ds = Inr (projr (register_all Registry_new ?ds))"
    by (cases "register_all Registry_new ?ds") simp_all
  have h2: "def_keyName (BlotClass paragraph_class) = None" by simp
  have h3: "def_className (BlotClass paragraph_class) = None" by (simp add: paragraph_class_def)
  have h4: "def_tagName (BlotClass paragraph_class) = Some (TagName ''p'')" by (simp add: paragraph_class_def)
  have h5: "''P'' \<in> set (tag_list (upper_tags (TagName ''p'')))" by (simp add: up)
  have h6: "\<forall>d' \<in> set [BlotClass callout_class]. \<not> displaces ''P'' d'"
    by (simp add: displaces_def callout_class_def)
  have a1: "ascii_tags (BlotClass paragraph_class)" "ascii_tags (BlotClass callout_class)"
    by (simp_all add: ascii_tags_def ascii_def paragraph_class_def callout_class_def)
  then have h7: "\<forall>d' \<in> set (BlotClass paragraph_class # [BlotClass callout_class]). ascii_tags d'"
    by simp
  have h8: "first_hit (classes (projr (register_all Registry_new ?ds)))
              (split_space (case Some ''intro wide'' of None \<Rightarrow> [] | Some c \<Rightarrow> c)) = NoMember"
    by (simp add: register_def Let_def paragraph_class_def callout_class_def Registry_new_def split_space_def
        is_space_def obj_get_def object_prototype_names_def)
  have h9: "classes (projr (register_all Registry_new ?ds)) ''__proto__'' = None"
    by (simp add: register_def Let_def paragraph_class_def callout_class_def Registry_new_def)
  have h10: "(Scope_ANY AND Scope_LEVEL) AND def_scope (BlotClass paragraph_class) \<noteq> 0"
    by (simp add: paragraph_class_def Scope_defs)
  have h11: "(Scope_ANY AND Scope_TYPE) AND def_scope (BlotClass paragraph_class) \<noteq> 0"
    by (simp add: paragraph_class_def Scope_defs)
  from tag_default_is_last_classless [OF r h2 h3 h4 h5 h6 h7 h8 h9 h10 h11]
  have "query (projr (register_all Registry_new ?ds)) (SelElement (Some ''intro wide'') ''P'') Scope_ANY
          = Some (BlotClass (paragraph_class\<lparr>tagName := Some (TagName ''P'')\<rparr>))"
    by (simp add: up)
  moreover from ok have "register_all Registry_new ?ds \<noteq> Inl InvalidDefinition"
    by (cases "register_all Registry_new ?ds") simp_all
  ultimately show ?thesis using h3 h6 a1 by simp
qed

section \<open>Properties of the optimize loop\<close>

lemma optimize_loop_bound:
  "optimize_loop takeRecords mark visit e o' t st = Inr (n, t', st') \<Longrightarrow>
     e \<le> MAX_OPTIMIZE_ITERATIONS \<Longrightarrow> n \<le> MAX_OPTIMIZE_ITERATIONS"
proof (induction takeRecords mark visit e o' t st rule: optimize_loop.induct)
  case (1 takeRecords mark visit e o' t st)
  show ?case
  proof (cases "o' = []")
    case True
    with "1.prems" show ?thesis by (simp add: optimize_loop.simps)
  next
    case False
    with "1.prems"(1) have lt: "\<not> MAX_OPTIMIZE_ITERATIONS \<le> e"
      by (auto simp: optimize_loop.simps [of takeRecords mark visit e o' t st])
    from False lt "1.prems"(1) obtain st1 where v: "visit (mark o' st) = Inr st1"
      by (cases "visit (mark o' st)") (auto simp: optimize_loop.simps [of takeRecords mark visit e o' t st])
    obtain i st2 where tk: "takeRecords st1 = (i, st2)" by (cases "takeRecords st1")
    from False lt v tk "1.prems"(1)
    have rec: "optimize_loop takeRecords mark visit (e + 1) i (t @ rev i) st2 = Inr (n, t', st')"
      by (simp add: optimize_loop.simps [of takeRecords mark visit e o' t st])
    from lt have "e + 1 \<le> MAX_OPTIMIZE_ITERATIONS" by simp
    from "1.IH" [OF False lt v tk [symmetric] rec this] show ?thesis .
  qed
qed

lemma optimize_loop_throws:
  "pending_after takeRecords mark visit k o' st = Some (p, st') \<Longrightarrow> p \<noteq> [] \<Longrightarrow>
   e + k = MAX_OPTIMIZE_ITERATIONS \<Longrightarrow>
   optimize_loop takeRecords mark visit e o' t st = Inl MaximumOptimizeIterations"
proof (induction k arbitrary: e o' t st)
  case 0
  then show ?case by (subst optimize_loop.simps) simp
next
  case (Suc k)
  from Suc.prems(1) have ne: "o' \<noteq> []" by (auto split: if_splits)
  from Suc.prems(1) ne obtain st1 where v: "visit (mark o' st) = Inr st1"
    by (cases "visit (mark o' st)") auto
  obtain i st2 where tk: "takeRecords st1 = (i, st2)" by (cases "takeRecords st1")
  from Suc.prems(1) ne v tk have p: "pending_after takeRecords mark visit k i st2 = Some (p, st')"
    by simp
  from Suc.prems(3) have lt: "\<not> MAX_OPTIMIZE_ITERATIONS \<le> e" and nx: "(e + 1) + k = MAX_OPTIMIZE_ITERATIONS"
    by simp_all
  from Suc.IH [OF p Suc.prems(2) nx]
  have "optimize_loop takeRecords mark visit (e + 1) i (t @ rev i) st2 = Inl MaximumOptimizeIterations" .
  with ne lt v tk show ?case
    by (simp add: optimize_loop.simps [of takeRecords mark visit e o' t st])
qed

lemma optimize_loop_returns:
  "pending_after takeRecords mark visit k o' st = Some ([], st') \<Longrightarrow>
   e + k \<le> MAX_OPTIMIZE_ITERATIONS \<Longrightarrow>
   \<exists>t'. optimize_loop takeRecords mark visit e o' t st = Inr (e + k, t', st')"
proof (induction k arbitrary: e o' t st)
  case 0
  then show ?case by (subst optimize_loop.simps) simp
next
  case (Suc k)
  from Suc.prems(1) have ne: "o' \<noteq> []" by (auto split: if_splits)
  from Suc.prems(1) ne obtain st1 where v: "visit (mark o' st) = Inr st1"
    by (cases "visit (mark o' st)") auto
  obtain i st2 where tk: "takeRecords st1 = (i, st2)" by (cases "takeRecords st1")
  from Suc.prems(1) ne v tk have p: "pending_after takeRecords mark visit k i st2 = Some ([], st')"
    by simp
  from Suc.prems(2) have lt: "\<not> MAX_OPTIMIZE_ITERATIONS \<le> e" and nx: "(e + 1) + k \<le> MAX_OPTIMIZE_ITERATIONS"
    by simp_all
  from Suc.IH [OF p nx] obtain t' where
    "optimize_loop takeRecords mark visit (e + 1) i (t @ rev i) st2 = Inr (e + 1 + k, t', st')" by blast
  with ne lt v tk have "optimize_loop takeRecords mark visit e o' t st = Inr (e + Suc k, t', st')"
    by (simp add: optimize_loop.simps [of takeRecords mark visit e o' t st])
  then show ?case by blast
qed

lemma restless_host_pending:
  "pending_after restless_host (\<lambda>_ s. s) Inr k [n] (Suc n) = Some ([n + k], Suc (n + k))"
  by (induction k arbitrary: n) (simp_all add: restless_host_def)

text \<open>
  C6. The loop of \<open>ScrollBlot.optimize\<close> always returns: with an error, or after at most
  100 passes. When the host still hands over records after the 100th pass (and no pass
  has thrown), the result is the error "Maximum optimize iterations reached".
\<close>

theorem optimize_terminates_within_bound:
  "(case ScrollBlot_optimize super_optimize takeRecords mark visit t st of
      Inl err \<Rightarrow> True
    | Inr (n, t', st') \<Rightarrow> n \<le> 100) \<and>
   (\<forall>st0 i st1 p st'.
      super_optimize st = Inr st0 \<and> takeRecords st0 = (i, st1) \<and>
      pending_after takeRecords mark visit 100 (t @ rev i) st1 = Some (p, st') \<and> p \<noteq> [] \<longrightarrow>
      ScrollBlot_optimize super_optimize takeRecords mark visit t st = Inl MaximumOptimizeIterations) \<and>
   (\<forall>st0 i st1 k st'.
      super_optimize st = Inr st0 \<and> takeRecords st0 = (i, st1) \<and> k \<le> 100 \<and>
      pending_after takeRecords mark visit k (t @ rev i) st1 = Some ([], st') \<longrightarrow>
      (\<exists>t'. ScrollBlot_optimize super_optimize takeRecords mark visit t st = Inr (k, t', st')))"
proof -
  have a: "case ScrollBlot_optimize super_optimize takeRecords mark visit t st of
      Inl err \<Rightarrow> True | Inr (n, t', st') \<Rightarrow> n \<le> 100"
  proof (cases "ScrollBlot_optimize super_optimize takeRecords mark visit t st")
    case (Inl err)
    then show ?thesis by simp
  next
    case (Inr res)
    obtain n t' st' where res: "res = (n, t', st')" by (cases res)
    from Inr res obtain st0 i st1 where
      "optimize_loop takeRecords mark visit 0 (t @ rev i) (t @ rev i) st1 = Inr (n, t', st')"
      by (auto simp: ScrollBlot_optimize_def split: sum.splits prod.splits)
    from optimize_loop_bound [OF this] have "n \<le> 100" by (simp add: MAX_OPTIMIZE_ITERATIONS_def)
    with Inr res show ?thesis by simp
  qed
  have b: "ScrollBlot_optimize super_optimize takeRecords mark visit t st = Inl MaximumOptimizeIterations"
    if "super_optimize st = Inr st0" "takeRecords st0 = (i, st1)"
       "pending_after takeRecords mark visit 100 (t @ rev i) st1 = Some (p, st')" "p \<noteq> []"
    for st0 i st1 p st'
    using that optimize_loop_throws [of takeRecords mark visit 100 "t @ rev i" st1 p st' 0 "t @ rev i"]
    by (simp add: ScrollBlot_optimize_def MAX_OPTIMIZE_ITERATIONS_def)
  have c: "\<exists>t'. ScrollBlot_optimize super_optimize takeRecords mark visit t st = Inr (k, t', st')"
    if "super_optimize st = Inr st0" "takeRecords st0 = (i, st1)" "k \<le> 100"
       "pending_after takeRecords mark visit k (t @ rev i) st1 = Some ([], st')"
    for st0 i st1 k st'
    using that optimize_loop_returns [of takeRecords mark visit k "t @ rev i" st1 st' 0 "t @ rev i"]
    by (simp add: ScrollBlot_optimize_def MAX_OPTIMIZE_ITERATIONS_def)
  from a b c show ?thesis by blast
qed


theorem optimize_terminates_within_bound_witness:
  "ScrollBlot_optimize Inr restless_host (\<lambda>_ s. s) Inr [] 0 = Inl MaximumOptimizeIterations \<and>
   ScrollBlot_optimize Inr settling_host (\<lambda>_ s. s) Inr [] 3 = Inr (3, [3, 2, 1], 0) \<and> (3::nat) \<le> 100"
proof -
  have p: "pending_after restless_host (\<lambda>_ s. s) Inr 100 ([] @ rev [0]) (Suc 0) = Some ([100], Suc 100)"
    using restless_host_pending [of 100 0] by simp
  have "restless_host 0 = ([0], Suc 0)" by (simp add: restless_host_def)
  with p optimize_terminates_within_bound [of Inr restless_host "\<lambda>_ s. s" Inr "[]" 0]
  have a: "ScrollBlot_optimize Inr restless_host (\<lambda>_ s. s) Inr [] 0 = Inl MaximumOptimizeIterations"
    by blast
  have b: "ScrollBlot_optimize Inr settling_host (\<lambda>_ s. s) Inr [] 3 = Inr (3, [3, 2, 1], 0)"
    by (simp add: ScrollBlot_optimize_def settling_host_def optimize_loop.simps MAX_OPTIMIZE_ITERATIONS_def
        eval_nat_numeral)
  from a b show ?thesis by simp
qed

section \<open>Properties of split\<close>

lemma blot_length_content: "blot_length b = int (length (content b))"
proof (induction b)
  case (ParentBlot c h cs)
  then show ?case
    by (induction cs) (simp_all add: length_concat)
qed simp_all


lemma blot_length_nonneg: "0 \<le> blot_length b"
  by (simp add: blot_length_content)

























section \<open>Properties of insertAt and deleteAt\<close>

lemma find_loop_at_length:
  "\<forall>x \<in> set xs. 0 \<le> len x \<Longrightarrow> find_loop len xs k (sum_list (map len xs)) False = (None, 0)"
proof (induction xs arbitrary: k)
  case Nil
  then show ?case by simp
next
  case (Cons i rest)
  from Cons.prems have "0 \<le> sum_list (map len rest)"
    by (intro sum_list_nonneg) auto
  with Cons show ?case by simp
qed

lemma find_at_length:
  "LinkedList_find blot_length cs (sum_list (map blot_length cs)) False = (None, 0)"
  by (simp add: LinkedList_find_def find_loop_at_length blot_length_nonneg)

text \<open>
  C7 (the claim as stated fails). A paragraph is a block blot holding the text \<open>ab\<close>; the
  payload is a divider, an embed of block scope. \<open>insertAt(2, "divider", true)\<close> does not
  append the divider to the paragraph: with a next sibling the divider is put after the
  paragraph in the paragraph's parent, and without one the call throws.
\<close>

theorem insertAt_block_counterexample:
  "BlockBlot_insertAt (TextBlot_insertAt divider_registry True) divider_registry True True example_paragraph
      (blot_length example_paragraph) ''divider'' (JBool True)
     = Inr [example_paragraph, LeafBlot divider_class (HostElement ''HR'' [])] \<and>
   BlockBlot_insertAt (TextBlot_insertAt divider_registry True) divider_registry True False example_paragraph
      (blot_length example_paragraph) ''divider'' (JBool True)
     = Inl InsertAfterBlockBoundaries \<and>
   append_created divider_registry example_paragraph ''divider'' (JBool True)
     = Inr [ParentBlot block_class (HostElement ''P'' [])
              [TextBlot text_class ''ab'', LeafBlot divider_class (HostElement ''HR'' [])]]"
  by (simp add: example_paragraph_def split.simps create_def divider_registry_def register_def
      Registry_new_def Let_def types_key_def index_tag_def text_class_def block_class_def
      divider_class_def query_def resolve_def obj_get_def object_prototype_names_def
      toUpperCase_def ascii_uppercase_def upper_char_def Scope_defs
      static_create_def element_for_def construct_def is_parent_variant_def)

text \<open>
  C7 (amended). For a parent blot whose \<open>insertAt\<close> is \<open>ParentBlot\<close>'s own (a plain parent or
  an inline blot), and for a block blot when the payload is text or a name the registry
  resolves at inline scope, \<open>insertAt(length(), content)\<close> gives the tree that creating
  the blot for the content and appending it as the last child gives, and fails exactly
  when the creation fails. For a block blot and any other content the new blot is not
  appended to the block: the block stays as it is and the new blot is put next to it in
  the block's parent (after it, or before it when the block is empty), and at the end of
  a non-empty block without a next sibling the call throws.
\<close>

theorem insertAt_length_is_append:
  "ParentBlot_insertAt child_insertAt reg (ParentBlot c h cs) (blot_length (ParentBlot c h cs)) e s
     = append_created reg (ParentBlot c h cs) e s \<and>
   (nullish s \<or> query reg (SelString e) Scope_INLINE \<noteq> None \<longrightarrow>
      BlockBlot_insertAt child_insertAt reg attached has_next (ParentBlot c h cs)
          (blot_length (ParentBlot c h cs)) e s
        = append_created reg (ParentBlot c h cs) e s) \<and>
   (\<not> nullish s \<and> query reg (SelString e) Scope_INLINE = None \<longrightarrow>
      BlockBlot_insertAt child_insertAt reg attached has_next (ParentBlot c h cs)
          (blot_length (ParentBlot c h cs)) e s
        = (if blot_length (ParentBlot c h cs) \<noteq> 0
           then (if \<not> has_next then Inl InsertAfterBlockBoundaries
                 else case create reg e s of
                        Inl err \<Rightarrow> Inl err
                      | Inr nb \<Rightarrow> Inr [ParentBlot c h cs, nb])
           else (case create reg e s of
                   Inl err \<Rightarrow> Inl err
                 | Inr nb \<Rightarrow> if attached then Inr [nb, ParentBlot c h cs] else Inl TypeError)))"
  by (simp add: find_at_length split.simps)

theorem insertAt_length_is_append_witness:
  "nullish JNull \<and>
   BlockBlot_insertAt (TextBlot_insertAt divider_registry True) divider_registry True False example_paragraph
       (blot_length example_paragraph) ''cd'' JNull
     = Inr [ParentBlot block_class (HostElement ''P'' [])
              [TextBlot text_class ''ab'', TextBlot text_class ''cd'']] \<and>
   \<not> nullish (JBool True) \<and> query divider_registry (SelString ''divider'') Scope_INLINE = None \<and>
   BlockBlot_insertAt (TextBlot_insertAt divider_registry True) divider_registry True True example_paragraph
       (blot_length example_paragraph) ''divider'' (JBool True)
     = Inr [example_paragraph, LeafBlot divider_class (HostElement ''HR'' [])]"
proof -
  have q: "query divider_registry (SelString ''divider'') Scope_INLINE = None"
    by (simp add: divider_registry_def register_def Registry_new_def Let_def types_key_def index_tag_def
      text_class_def block_class_def divider_class_def query_def resolve_def obj_get_def
      object_prototype_names_def toUpperCase_def upper_char_def Scope_defs)
  have cr: "create divider_registry ''divider'' (JBool True) = Inr (LeafBlot divider_class (HostElement ''HR'' []))"
    by (simp add: create_def divider_registry_def register_def Registry_new_def Let_def types_key_def
      index_tag_def text_class_def block_class_def divider_class_def query_def resolve_def obj_get_def
      object_prototype_names_def toUpperCase_def ascii_uppercase_def upper_char_def Scope_defs
      static_create_def element_for_def construct_def is_parent_variant_def)
  from insertAt_length_is_append [of "TextBlot_insertAt divider_registry True" divider_registry block_class
      "HostElement ''P'' []" "[TextBlot text_class ''ab'']" "''divider''" "JBool True" True True] q cr
  have blk: "BlockBlot_insertAt (TextBlot_insertAt divider_registry True) divider_registry True True example_paragraph
       (blot_length example_paragraph) ''divider'' (JBool True)
     = Inr [example_paragraph, LeafBlot divider_class (HostElement ''HR'' [])]"
    by (simp add: example_paragraph_def)
  have "append_created divider_registry example_paragraph ''cd'' JNull
     = Inr [ParentBlot block_class (HostElement ''P'' [])
              [TextBlot text_class ''ab'', TextBlot text_class ''cd'']]"
    by (simp add: example_paragraph_def create_def divider_registry_def register_def
      Registry_new_def Let_def types_key_def index_tag_def text_class_def block_class_def
      divider_class_def query_def resolve_def obj_get_def object_prototype_names_def
      toUpperCase_def upper_char_def Scope_defs
      static_create_def construct_def)
  with insertAt_length_is_append [of "TextBlot_insertAt divider_registry True" divider_registry block_class
      "HostElement ''P'' []" "[TextBlot text_class ''ab'']" "''cd''" JNull True False]
  have "BlockBlot_insertAt (TextBlot_insertAt divider_registry True) divider_registry True False example_paragraph
       (blot_length example_paragraph) ''cd'' JNull
     = Inr [ParentBlot block_class (HostElement ''P'' [])
              [TextBlot text_class ''ab'', TextBlot text_class ''cd'']]"
    by (simp add: example_paragraph_def)
  with q blk show ?thesis by simp
qed

text \<open>
  C5 (the claim as stated fails). The root declares the default child \<open>block\<close> and holds
  one paragraph. After \<open>deleteAt(0, length())\<close> the root is still in place and has no
  child at all: it was not removed, and no default child was put into it.
\<close>

theorem deleteAt_root_counterexample:
  "defaultChild (statics example_root) = Some ''block'' \<and>
   ScrollBlot_deleteAt Inr TextBlot_deleteAt example_root 0 (blot_length example_root)
     = Inr [ParentBlot scroll_class (HostElement ''DIV'' []) []]"
  by (simp add: example_root_def example_paragraph_def scroll_class_def remove_def)

text \<open>
  C5 (amended). For a parent blot whose \<open>deleteAt\<close> is \<open>ParentBlot\<close>'s own (a plain parent,
  an inline or a block blot), \<open>deleteAt(0, length())\<close> removes the blot from the tree,
  whether or not its class declares a default child. For the root, when the update that
  precedes the deletion leaves its length as it was, \<open>deleteAt(0, length())\<close> removes
  every child and leaves the root in place with no children; \<open>deleteAt\<close> creates no
  default child.
\<close>

theorem deleteAt_whole_length:
  "ParentBlot_deleteAt child_deleteAt (ParentBlot c h cs) 0 (blot_length (ParentBlot c h cs)) = Inr [] \<and>
   (update cs = Inr cs' \<and> blot_length (ParentBlot c h cs') = blot_length (ParentBlot c h cs) \<longrightarrow>
      ScrollBlot_deleteAt update child_deleteAt (ParentBlot c h cs) 0 (blot_length (ParentBlot c h cs))
        = Inr [ParentBlot c h []])"
  by (auto simp: remove_def)

theorem deleteAt_whole_length_witness:
  "blot_length example_root = 2 \<and>
   ParentBlot_deleteAt TextBlot_deleteAt example_paragraph 0 (blot_length example_paragraph) = Inr [] \<and>
   ScrollBlot_deleteAt Inr TextBlot_deleteAt example_root 0 (blot_length example_root)
     = Inr [ParentBlot scroll_class (HostElement ''DIV'' []) []]"
  using deleteAt_whole_length [of TextBlot_deleteAt block_class "HostElement ''P'' []" "[TextBlot text_class ''ab'']"
      Inr "[TextBlot text_class ''ab'']"]
    deleteAt_whole_length [of TextBlot_deleteAt scroll_class "HostElement ''DIV'' []" "[example_paragraph]"
      Inr "[example_paragraph]"]
  by (simp add: example_root_def example_paragraph_def)

section \<open>Properties of host tree adaptation\<close>

text \<open>
  C9 (the claim as stated fails). With a registry that has no class for the inline scope
  probe (here the empty registry), the creation for an unknown element fails, the
  fallback fails too, and the error leaves \<open>d\<close>: no wrapper is made. \<open>build\<close> on the
  parent swallows the error and passes the node over, so it gets no blot.
\<close>

theorem unknown_node_counterexample:
  "query Registry_new (node_selector font_node) Scope_ANY = None \<and>
   makeAttachedBlot Registry_new (\<lambda>_. None) font_node = Inl UnableToCreate \<and>
   build Registry_new (\<lambda>_. None) [font_node] = Inr ([], [font_node])"
  by (simp add: font_node_def Registry_new_def query_def resolve_def split_space_def getAttribute_def
      obj_get_def object_prototype_names_def create_scope_def Scope_defs)

text \<open>
  C9 (amended). For a host node that has no blot yet and for which no descriptor
  resolves, when the registry can create the generic inline blot on an element (the class
  registered as \<open>inline\<close> answers the inline scope probe and has a tag), \<open>d\<close> recovers from
  the failed creation: it returns that new inline wrapper blot, whose host element holds
  all of the unknown node's child nodes in their order and stands in the unknown node's
  place. The wrapper blot itself has no child blots at that point. When the generic
  inline blot cannot be created, its error leaves \<open>d\<close>; \<open>build\<close> on the parent then
  passes the node over, leaving it in the host tree without a blot, when the error is a
  \<open>ParchmentError\<close>.
\<close>

theorem unknown_node_wrapped:
  assumes "known t = None" and "query reg (node_selector t) Scope_ANY = None"
  shows "(create_scope reg Scope_INLINE = Inr w \<and> host_of w = HostElement tg attrs \<longrightarrow>
            makeAttachedBlot reg known t = Inr (w, Element tg attrs (childNodes t)) \<and>
            (is_leaf w \<or> w = ParentBlot (statics w) (HostElement tg attrs) [])) \<and>
         (create_scope reg Scope_INLINE = Inl err \<longrightarrow> makeAttachedBlot reg known t = Inl err) \<and>
         (create_scope reg Scope_INLINE = Inl err \<and> is_ParchmentError err \<longrightarrow>
            build reg known (t # ts)
              = (case build reg known ts of
                   Inl err' \<Rightarrow> Inl err'
                 | Inr (bs, ns) \<Rightarrow> Inr (bs, t # ns)))"
proof -
  from assms(2) have cn: "create_node reg known t = Inl UnableToCreate"
    by (cases t) simp_all
  have shape: "is_leaf w \<or> w = ParentBlot (statics w) (HostElement tg attrs) []"
    if "create_scope reg Scope_INLINE = Inr w" "host_of w = HostElement tg attrs"
    using that
    by (auto simp: create_scope_def construct_def split: option.splits registrable.splits sum.splits
        if_splits host.splits)
  have fail: "makeAttachedBlot reg known t = Inl err" if "create_scope reg Scope_INLINE = Inl err"
    using that cn assms(1) by simp
  have skip: "build reg known (t # ts)
              = (case build reg known ts of
                   Inl err' \<Rightarrow> Inl err'
                 | Inr (bs, ns) \<Rightarrow> Inr (bs, t # ns))"
    if "create_scope reg Scope_INLINE = Inl err" "is_ParchmentError err"
    using fail [OF that(1)] that(2) by (simp split: sum.splits prod.splits)
  from cn assms(1) shape fail skip show ?thesis
    by (auto simp: adopt_def)
qed

theorem unknown_node_wrapped_witness:
  "query inline_registry (node_selector font_node) Scope_ANY = None \<and>
   create_scope inline_registry Scope_INLINE = Inr (ParentBlot inline_class (HostElement ''SPAN'' []) []) \<and>
   makeAttachedBlot inline_registry (\<lambda>_. None) font_node
     = Inr (ParentBlot inline_class (HostElement ''SPAN'' []) [],
            Element ''SPAN'' [] [Text ''ab'', Element ''B'' [] [Text ''c'']]) \<and>
   query Registry_new (node_selector font_node) Scope_ANY = None \<and>
   create_scope Registry_new Scope_INLINE = Inl UnableToCreate \<and> is_ParchmentError UnableToCreate \<and>
   build Registry_new (\<lambda>_. None) [font_node, Text ''d''] = Inr ([], [font_node, Text ''d''])"
proof -
  have q0: "query Registry_new (node_selector font_node) Scope_ANY = None"
    by (simp add: font_node_def Registry_new_def query_def resolve_def split_space_def getAttribute_def
        obj_get_def object_prototype_names_def)
  have c0: "create_scope Registry_new Scope_INLINE = Inl UnableToCreate"
    by (simp add: create_scope_def Registry_new_def query_def resolve_def obj_get_def
        object_prototype_names_def Scope_defs)
  have b0: "build Registry_new (\<lambda>_. None) [Text ''d''] = Inr ([], [Text ''d''])"
    by (simp add: Registry_new_def query_def resolve_def obj_get_def object_prototype_names_def
        create_scope_def Scope_defs)
  from unknown_node_wrapped [where known = "\<lambda>_. None" and t = font_node and reg = Registry_new
      and err = UnableToCreate and ts = "[Text ''d'']", OF _ q0] c0 b0
  have s0: "build Registry_new (\<lambda>_. None) [font_node, Text ''d''] = Inr ([], [font_node, Text ''d''])"
    by simp
  have q: "query inline_registry (node_selector font_node) Scope_ANY = None"
    by (simp add: font_node_def inline_registry_def register_def Registry_new_def Let_def types_key_def
        index_tag_def text_class_def block_class_def inline_class_def query_def resolve_def
        obj_get_def object_prototype_names_def
        toUpperCase_def upper_char_def split_space_def getAttribute_def Scope_defs)
  have c: "create_scope inline_registry Scope_INLINE = Inr (ParentBlot inline_class (HostElement ''SPAN'' []) [])"
    by (simp add: create_scope_def inline_registry_def register_def Registry_new_def Let_def types_key_def
        index_tag_def text_class_def block_class_def inline_class_def query_def resolve_def
        obj_get_def object_prototype_names_def
        toUpperCase_def ascii_uppercase_def upper_char_def Scope_defs static_create_def element_for_def
        construct_def is_parent_variant_def)
  from unknown_node_wrapped [of "\<lambda>_. None" font_node inline_registry
      "ParentBlot inline_class (HostElement ''SPAN'' []) []" "''SPAN''" "[]", OF _ q] c
  have "makeAttachedBlot inline_registry (\<lambda>_. None) font_node
     = Inr (ParentBlot inline_class (HostElement ''SPAN'' []) [],
            Element ''SPAN'' [] (childNodes font_node))"
    by simp
  with q c q0 c0 s0 show ?thesis by (simp add: font_node_def)
qed

section \<open>Properties of the round trip through the host node\<close>



lemma then_do_Inr [simp]: "then_do (Inr x) f = f x"
  by (simp add: then_do_def)

lemma then_do_Inl [simp]: "then_do (Inl err) f = Inl err"
  by (simp add: then_do_def)


lemma classList_add_one:
  "classList_add [c] t = Inl err \<Longrightarrow> \<not> valid_token c \<and> (err = EmptyTokenError \<or> err = InvalidCharacterError)"
  by (auto simp: classList_add_def valid_token_def Let_def split: if_splits)


















end
